theory Spec2Isabelle
  imports Main "HOL-Library.Word" "HOL-Library.Code_Target_Numeral"
begin

unbundle bit_operations_syntax

chapter \<open>The Glipt runtime: a shallow embedding\<close>

text \<open>
  The definitions follow the C sources of the interpreter (\<^verbatim>\<open>value.h\<close>,
  \<^verbatim>\<open>permission.c\<close>, \<^verbatim>\<open>vm.c\<close>, \<^verbatim>\<open>memory.c\<close>, \<^verbatim>\<open>compiler.c\<close>,
  \<^verbatim>\<open>dataformat.c\<close>) and keep their names. All definitions come first; the
  lemmas and the theorems about them follow in the second part.
\<close>

section \<open>Values (value.h)\<close>

text \<open>
  A \<^verbatim>\<open>Value\<close> is a 64-bit word. Doubles are stored as their IEEE-754 bit
  pattern; every other value is a quiet NaN with tag bits.
\<close>

type_synonym Value = "64 word"

definition SIGN_BIT :: Value where
  "SIGN_BIT = 0x8000000000000000"

definition QNAN :: Value where
  "QNAN = 0x7FFC000000000000"

definition TAG_NIL :: Value where
  "TAG_NIL = 1"

definition TAG_FALSE :: Value where
  "TAG_FALSE = 2"

definition TAG_TRUE :: Value where
  "TAG_TRUE = 3"

definition NIL_VAL :: Value where
  "NIL_VAL = QNAN OR TAG_NIL"

definition TRUE_VAL :: Value where
  "TRUE_VAL = QNAN OR TAG_TRUE"

definition FALSE_VAL :: Value where
  "FALSE_VAL = QNAN OR TAG_FALSE"

definition BOOL_VAL :: "bool \<Rightarrow> Value" where
  "BOOL_VAL b = (if b then TRUE_VAL else FALSE_VAL)"

text \<open>\<^verbatim>\<open>OBJ_VAL(obj)\<close>: the pointer, as an integer, under the sign bit and the quiet-NaN bits.\<close>

definition OBJ_VAL :: "64 word \<Rightarrow> Value" where
  "OBJ_VAL obj = SIGN_BIT OR QNAN OR obj"

definition IS_NIL :: "Value \<Rightarrow> bool" where
  "IS_NIL v = (v = NIL_VAL)"

definition IS_BOOL :: "Value \<Rightarrow> bool" where
  "IS_BOOL v = (v = TRUE_VAL \<or> v = FALSE_VAL)"

definition IS_NUMBER :: "Value \<Rightarrow> bool" where
  "IS_NUMBER v = (v AND QNAN \<noteq> QNAN)"

definition IS_OBJ :: "Value \<Rightarrow> bool" where
  "IS_OBJ v = (v AND (SIGN_BIT OR QNAN) = (SIGN_BIT OR QNAN))"

definition AS_BOOL :: "Value \<Rightarrow> bool" where
  "AS_BOOL v = (v = TRUE_VAL)"

definition AS_OBJ :: "Value \<Rightarrow> 64 word" where
  "AS_OBJ v = v AND NOT (SIGN_BIT OR QNAN)"

text \<open>
  \<^verbatim>\<open>AS_NUMBER(value) == 0\<close> compares a double with zero. On the bit pattern of
  a double that is not a NaN this holds exactly when every bit but the sign bit is clear
  (the two zeros \<open>+0.0\<close> and \<open>-0.0\<close>); \<^verbatim>\<open>IS_NUMBER\<close> has excluded the quiet
  NaNs before the comparison is made.
\<close>

definition number_eq_zero :: "Value \<Rightarrow> bool" where
  "number_eq_zero v = (v AND NOT SIGN_BIT = 0)"

definition isFalsey :: "Value \<Rightarrow> bool" where
  "isFalsey v =
     (if IS_NIL v then True
      else if IS_BOOL v then v = FALSE_VAL
      else if IS_NUMBER v then number_eq_zero v
      else False)"

section \<open>Permissions (permission.c)\<close>

datatype PermissionType = PERM_EXEC | PERM_NET | PERM_READ | PERM_WRITE | PERM_ENV

text \<open>
  A C string is modelled by the list of its bytes before the terminating NUL, so
  \<^verbatim>\<open>*p == '\0'\<close> is \<open>p = []\<close>. The \<^verbatim>\<open>permissions\<close> array is the list of its
  first \<^verbatim>\<open>count\<close> slots.
\<close>

record Permission =
  ptype :: PermissionType
  target :: string

record PermissionSet =
  permissions :: "Permission list"
  capacity :: nat
  allowAll :: bool

definition initPermissions :: PermissionSet where
  "initPermissions = \<lparr>permissions = [], capacity = 0, allowAll = False\<rparr>"

definition addPermission :: "PermissionSet \<Rightarrow> PermissionType \<Rightarrow> string \<Rightarrow> PermissionSet" where
  "addPermission s ty tgt =
     (let cap = (if length (permissions s) \<ge> capacity s
                 then (if capacity s < 8 then 8 else capacity s * 2)
                 else capacity s)
      in s\<lparr>permissions := permissions s @ [\<lparr>ptype = ty, target = tgt\<rparr>], capacity := cap\<rparr>)"

text \<open>The loop \<^verbatim>\<open>while (*pattern == '*') pattern++\<close> after the main loop of \<^verbatim>\<open>globMatch\<close>.\<close>

fun skipStars :: "string \<Rightarrow> string" where
  "skipStars [] = []"
| "skipStars (p # ps) = (if p = CHR ''*'' then skipStars ps else p # ps)"

text \<open>The two statements after the main loop: skip the stars, then both strings must be at their end.\<close>

definition globTail :: "string \<Rightarrow> string \<Rightarrow> bool" where
  "globTail pattern text = (skipStars pattern = [] \<and> text = [])"

text \<open>
  \<^verbatim>\<open>globMatch\<close>: the first equation is one round of the main loop (both strings
  non-empty), the other two are the loop's exit. \<open>globStar\<close> is the inner loop that
  tries the rest of the pattern at every non-empty suffix of the text.
\<close>

fun globMatch :: "string \<Rightarrow> string \<Rightarrow> bool"
  and globStar :: "string \<Rightarrow> string \<Rightarrow> bool" where
  "globMatch (p # ps) (c # cs) =
     (if p = CHR ''*'' then (if ps = [] then True else globStar ps (c # cs))
      else if p \<noteq> c then False
      else globMatch ps cs)"
| "globMatch [] text = globTail [] text"
| "globMatch (p # ps) [] = globTail (p # ps) []"
| "globStar pattern (c # cs) = (if globMatch pattern (c # cs) then True else globStar pattern cs)"
| "globStar pattern [] = False"

fun hasPermission_loop :: "Permission list \<Rightarrow> PermissionType \<Rightarrow> string \<Rightarrow> bool" where
  "hasPermission_loop [] ty tgt = False"
| "hasPermission_loop (p # ps) ty tgt =
     (if ptype p = ty \<and> globMatch (target p) tgt then True else hasPermission_loop ps ty tgt)"

definition hasPermission :: "PermissionSet \<Rightarrow> PermissionType \<Rightarrow> string \<Rightarrow> bool" where
  "hasPermission s ty tgt =
     (if allowAll s then True else hasPermission_loop (permissions s) ty tgt)"

text \<open>
  The glob language as the specification words it: \<open>*\<close> matches any (possibly empty)
  run of bytes, every other pattern byte matches only an identical byte.
\<close>

inductive glob_matches :: "string \<Rightarrow> string \<Rightarrow> bool" where
  gm_end: "glob_matches [] []"
| gm_star: "glob_matches ps t \<Longrightarrow> glob_matches (CHR ''*'' # ps) (run @ t)"
| gm_byte: "c \<noteq> CHR ''*'' \<Longrightarrow> glob_matches ps t \<Longrightarrow> glob_matches (c # ps) (c # t)"

section \<open>Heap objects (object.h, chunk.h, table.h)\<close>

text \<open>
  An object pointer is the 64-bit integer that \<^verbatim>\<open>OBJ_VAL\<close> stores; \<open>0\<close> is
  \<^verbatim>\<open>NULL\<close>. A table entry has a key (an \<^verbatim>\<open>ObjString*\<close>, \<open>None\<close> for
  \<^verbatim>\<open>NULL\<close>) and a value; the \<^verbatim>\<open>capacity\<close> of a table is the length of
  its entry array. The two types are polymorphic in the key and the value: the tables of
  the machine have pointers for keys and \<^verbatim>\<open>Value\<close> words for values, the maps of
  the JSON value trees further down have the bytes of the key and a tree.
\<close>

type_synonym ptr = "64 word"

datatype ('k, 'v) Entry = Entry (e_key: "'k option") (e_value: 'v)

datatype ('k, 'v) Table = Table (count: nat) (entries: "('k, 'v) Entry list")

record Chunk =
  code :: "8 word list"
  lines :: "int list"
  constants :: "Value list"
  constantIndex :: "(ptr, Value) Table"

text \<open>
  Where an upvalue's \<^verbatim>\<open>location\<close> points: into the value stack (open) or at its
  own \<^verbatim>\<open>closed\<close> field.
\<close>

datatype Location = StackSlot nat | ClosedField

datatype Obj =
    ObjString string "32 word"
  | ObjFunction nat nat Chunk ptr
  | ObjUpvalue Location Value
  | ObjClosure ptr "ptr list"
  | ObjNative nat string int
  | ObjList "Value list"
  | ObjMap "(ptr, Value) Table"

text \<open>
  The fields are, in order: \<open>ObjString chars hash\<close>; \<open>ObjFunction arity upvalueCount
  chunk name\<close>; \<open>ObjUpvalue location closed\<close>; \<open>ObjClosure function upvalues\<close>;
  \<open>ObjNative function name arity\<close> with the C function pointer as a number;
  \<open>ObjList items\<close>; \<open>ObjMap table\<close>. The header of every object carries the mark bit;
  the \<^verbatim>\<open>next\<close> links are the order of the list \<open>objects\<close> of the VM.
\<close>

record HeapObj =
  obj :: Obj
  isMarked :: bool

type_synonym Heap = "ptr \<Rightarrow> HeapObj option"

datatype ObjType = OBJ_STRING | OBJ_FUNCTION | OBJ_CLOSURE | OBJ_UPVALUE | OBJ_NATIVE
  | OBJ_LIST | OBJ_MAP

fun obj_type :: "Obj \<Rightarrow> ObjType" where
  "obj_type (ObjString cs h) = OBJ_STRING"
| "obj_type (ObjFunction a u c n) = OBJ_FUNCTION"
| "obj_type (ObjUpvalue l c) = OBJ_UPVALUE"
| "obj_type (ObjClosure f us) = OBJ_CLOSURE"
| "obj_type (ObjNative f n a) = OBJ_NATIVE"
| "obj_type (ObjList xs) = OBJ_LIST"
| "obj_type (ObjMap t) = OBJ_MAP"

text \<open>\<^verbatim>\<open>isObjType\<close>; reading the type tag through a pointer to no object is false here.\<close>

definition isObjType :: "Heap \<Rightarrow> Value \<Rightarrow> ObjType \<Rightarrow> bool" where
  "isObjType hp v ty =
     (IS_OBJ v \<and> (case hp (AS_OBJ v) of None \<Rightarrow> False | Some ho \<Rightarrow> obj_type (obj ho) = ty))"

text \<open>\<^verbatim>\<open>hashString\<close> of object.c: FNV-1a on 32 bits.\<close>

fun hashString_loop :: "32 word \<Rightarrow> string \<Rightarrow> 32 word" where
  "hashString_loop hash [] = hash"
| "hashString_loop hash (c # cs) = hashString_loop ((hash XOR of_nat (of_char c)) * 16777619) cs"

definition hashString :: "string \<Rightarrow> 32 word" where
  "hashString cs = hashString_loop 2166136261 cs"

text \<open>\<^verbatim>\<open>key->hash\<close>, read through the heap.\<close>

definition key_hash :: "Heap \<Rightarrow> ptr \<Rightarrow> 32 word" where
  "key_hash hp k = (case hp k of Some ho \<Rightarrow> (case obj ho of ObjString cs h \<Rightarrow> h | _ \<Rightarrow> 0) | None \<Rightarrow> 0)"

section \<open>Hash tables (table.h)\<close>

text \<open>
  Modelled from the spec: the file \<^verbatim>\<open>table.c\<close> that implements the functions
  declared in \<^verbatim>\<open>table.h\<close> is not among the sources. The specification describes the
  table as an open-addressing hash table with linear probing, in which tombstones mark
  deletions and which is resized at a load of 75 percent; growth doubles the capacity,
  starting at 8, as every other growing array of the sources does. A tombstone is an entry
  with no key and a value that is not \<^verbatim>\<open>nil\<close>; an entry with no key and the value
  \<^verbatim>\<open>nil\<close> is empty. The count of a table counts its keys and its tombstones.

  The probing loop has no exit but an empty entry or the key. It is given as much fuel as
  the table has entries: after that many rounds every entry has been seen once, and a
  loop that has not returned never will. \<open>None\<close> is that case.
\<close>

definition initTable :: "('k, 'v) Table" where
  "initTable = Table 0 []"

definition GROW_CAPACITY :: "nat \<Rightarrow> nat" where
  "GROW_CAPACITY c = (if c < 8 then 8 else c * 2)"

text \<open>
  The functions take the hash of a key (\<^verbatim>\<open>key->hash\<close>) as the function \<open>h\<close>, the
  value \<^verbatim>\<open>nil\<close> as \<open>nil\<close> and, where a tombstone is written, the value
  \<^verbatim>\<open>true\<close> as \<open>tomb\<close>.
\<close>

fun findEntry_loop ::
    "'v \<Rightarrow> ('k, 'v) Entry list \<Rightarrow> 'k \<Rightarrow> nat \<Rightarrow> nat option \<Rightarrow> nat \<Rightarrow> nat option" where
  "findEntry_loop nil es k index tombstone 0 = None"
| "findEntry_loop nil es k index tombstone (Suc fuel) =
     (case e_key (es ! index) of
        None \<Rightarrow>
          if e_value (es ! index) = nil
          then Some (case tombstone of Some t \<Rightarrow> t | None \<Rightarrow> index)
          else findEntry_loop nil es k ((index + 1) mod length es)
                 (case tombstone of Some t \<Rightarrow> Some t | None \<Rightarrow> Some index) fuel
      | Some k' \<Rightarrow>
          if k' = k then Some index
          else findEntry_loop nil es k ((index + 1) mod length es) tombstone fuel)"

definition findEntry :: "('k \<Rightarrow> 32 word) \<Rightarrow> 'v \<Rightarrow> ('k, 'v) Entry list \<Rightarrow> 'k \<Rightarrow> nat option" where
  "findEntry h nil es k = findEntry_loop nil es k (unat (h k) mod length es) None (length es)"

text \<open>\<^verbatim>\<open>tableGetEntry\<close>: the index of the entry of the key, \<open>Some None\<close> when the key is absent.\<close>

definition tableGetEntry ::
    "('k \<Rightarrow> 32 word) \<Rightarrow> 'v \<Rightarrow> ('k, 'v) Table \<Rightarrow> 'k \<Rightarrow> nat option option" where
  "tableGetEntry h nil t k =
     (if count t = 0 then Some None
      else case findEntry h nil (entries t) k of
             None \<Rightarrow> None
           | Some i \<Rightarrow> Some (if e_key (entries t ! i) = None then None else Some i))"

definition tableGet ::
    "('k \<Rightarrow> 32 word) \<Rightarrow> 'v \<Rightarrow> ('k, 'v) Table \<Rightarrow> 'k \<Rightarrow> 'v option option" where
  "tableGet h nil t k =
     (case tableGetEntry h nil t k of
        None \<Rightarrow> None
      | Some None \<Rightarrow> Some None
      | Some (Some i) \<Rightarrow> Some (Some (e_value (entries t ! i))))"

text \<open>The loop of \<^verbatim>\<open>adjustCapacity\<close> that moves every key of the old array into the new one.\<close>

fun rehash ::
    "('k \<Rightarrow> 32 word) \<Rightarrow> 'v \<Rightarrow> ('k, 'v) Entry list \<Rightarrow> ('k, 'v) Entry list \<Rightarrow> nat
      \<Rightarrow> (('k, 'v) Entry list \<times> nat) option" where
  "rehash h nil [] new c = Some (new, c)"
| "rehash h nil (e # old) new c =
     (case e_key e of
        None \<Rightarrow> rehash h nil old new c
      | Some k \<Rightarrow>
          (case findEntry h nil new k of
             None \<Rightarrow> None
           | Some d \<Rightarrow> rehash h nil old (new[d := e]) (c + 1)))"

definition adjustCapacity ::
    "('k \<Rightarrow> 32 word) \<Rightarrow> 'v \<Rightarrow> ('k, 'v) Table \<Rightarrow> nat \<Rightarrow> ('k, 'v) Table option" where
  "adjustCapacity h nil t cap =
     (case rehash h nil (entries t) (replicate cap (Entry None nil)) 0 of
        None \<Rightarrow> None
      | Some (es, c) \<Rightarrow> Some (Table c es))"

text \<open>\<^verbatim>\<open>tableSet\<close> returns whether the key is new, and the table.\<close>

definition tableSet ::
    "('k \<Rightarrow> 32 word) \<Rightarrow> 'v \<Rightarrow> ('k, 'v) Table \<Rightarrow> 'k \<Rightarrow> 'v \<Rightarrow> (bool \<times> ('k, 'v) Table) option" where
  "tableSet h nil t k v =
     (case (if 4 * (count t + 1) > 3 * length (entries t)
            then adjustCapacity h nil t (GROW_CAPACITY (length (entries t)))
            else Some t) of
        None \<Rightarrow> None
      | Some t1 \<Rightarrow>
          (case findEntry h nil (entries t1) k of
             None \<Rightarrow> None
           | Some i \<Rightarrow>
               (let isNewKey = (e_key (entries t1 ! i) = None);
                    c = (if isNewKey \<and> e_value (entries t1 ! i) = nil
                         then count t1 + 1 else count t1)
                in Some (isNewKey, Table c ((entries t1)[i := Entry (Some k) v])))))"

definition tableDelete ::
    "('k \<Rightarrow> 32 word) \<Rightarrow> 'v \<Rightarrow> 'v \<Rightarrow> ('k, 'v) Table \<Rightarrow> 'k \<Rightarrow> (bool \<times> ('k, 'v) Table) option" where
  "tableDelete h nil tomb t k =
     (if count t = 0 then Some (False, t)
      else case findEntry h nil (entries t) k of
             None \<Rightarrow> None
           | Some i \<Rightarrow>
               if e_key (entries t ! i) = None then Some (False, t)
               else Some (True, Table (count t) ((entries t)[i := Entry None tomb])))"

fun tableAddAll_loop ::
    "('k \<Rightarrow> 32 word) \<Rightarrow> 'v \<Rightarrow> ('k, 'v) Entry list \<Rightarrow> ('k, 'v) Table \<Rightarrow> ('k, 'v) Table option" where
  "tableAddAll_loop h nil [] to = Some to"
| "tableAddAll_loop h nil (e # es) to =
     (case e_key e of
        None \<Rightarrow> tableAddAll_loop h nil es to
      | Some k \<Rightarrow>
          (case tableSet h nil to k (e_value e) of
             None \<Rightarrow> None
           | Some (b, to') \<Rightarrow> tableAddAll_loop h nil es to'))"

definition tableAddAll ::
    "('k \<Rightarrow> 32 word) \<Rightarrow> 'v \<Rightarrow> ('k, 'v) Table \<Rightarrow> ('k, 'v) Table \<Rightarrow> ('k, 'v) Table option" where
  "tableAddAll h nil from to = tableAddAll_loop h nil (entries from) to"

text \<open>The empty entry and the tombstone of the tables of the machine.\<close>

definition emptyEntry :: "(ptr, Value) Entry" where
  "emptyEntry = Entry None NIL_VAL"

definition tombstoneEntry :: "(ptr, Value) Entry" where
  "tombstoneEntry = Entry None (BOOL_VAL True)"

section \<open>The virtual machine (vm.h, vm.c)\<close>

definition FRAMES_MAX :: nat where
  "FRAMES_MAX = 256"

definition UINT8_COUNT :: nat where
  "UINT8_COUNT = 256"

definition STACK_MAX :: nat where
  "STACK_MAX = FRAMES_MAX * UINT8_COUNT"

definition HANDLER_MAX :: nat where
  "HANDLER_MAX = 64"

definition GLOBAL_IC_SIZE :: nat where
  "GLOBAL_IC_SIZE = 512"

text \<open>
  An instruction pointer points into the code array of the chunk of one function: it is
  that function and an offset. A pointer into the value stack is the index of the slot.
  The entry pointer of an inline-cache slot is the index into the entry array of the
  globals table.
\<close>

record CodePtr =
  blk :: ptr
  off :: nat

record CallFrame =
  closure :: ptr
  cf_ip :: CodePtr
  slots :: nat

record ErrorHandler =
  handlerIP :: CodePtr
  eh_frameCount :: nat
  eh_stackTop :: nat
  scopeDepth :: int

record GlobalICSlot =
  ic_key :: ptr
  ic_entry :: nat
  tableCapacity :: nat

datatype InterpretResult = INTERPRET_OK | INTERPRET_COMPILE_ERROR | INTERPRET_RUNTIME_ERROR

text \<open>
  The fields of \<^verbatim>\<open>struct VM\<close> that the modelled functions use, then the three
  locals of \<^verbatim>\<open>run\<close> (\<open>frame\<close>, the index of the current frame; \<open>ip\<close>;
  \<open>run_constants\<close>, the constant array of the current function) and what has been written to
  \<^verbatim>\<open>stderr\<close>. The open upvalues and the objects are the nodes of their linked lists,
  in list order.
\<close>

record VM =
  frames :: "nat \<Rightarrow> CallFrame"
  frameCount :: nat
  stack :: "nat \<Rightarrow> Value"
  stackTop :: nat
  globals :: "(ptr, Value) Table"
  strings :: "(ptr, Value) Table"
  openUpvalues :: "ptr list"
  objects :: "ptr list"
  heap :: Heap
  grayStack :: "ptr list"
  vm_permissions :: PermissionSet
  handlers :: "nat \<Rightarrow> ErrorHandler"
  handlerCount :: nat
  hasError :: bool
  currentError :: Value
  globalIC :: "nat \<Rightarrow> GlobalICSlot"
  baseFrameCount :: nat
  modules :: "(ptr, Value) Table"
  frame :: nat
  ip :: CodePtr
  run_constants :: "Value list"
  stderr :: "string list"

text \<open>
  What one instruction leaves: the machine goes on, \<^verbatim>\<open>run\<close> returns, or a table
  lookup of the instruction never returns.
\<close>

datatype Outcome = Next VM | Return InterpretResult VM | Hang

type_synonym NativeFn = "VM \<Rightarrow> nat \<Rightarrow> nat \<Rightarrow> Value \<times> VM"

text \<open>The decimal digits that \<^verbatim>\<open>%d\<close> prints for a number that is not negative.\<close>

fun dec :: "nat \<Rightarrow> string" where
  "dec n = (if n < 10 then [char_of (48 + n)] else dec (n div 10) @ [char_of (48 + n mod 10)])"

text \<open>
  \<^verbatim>\<open>runtimeError\<close> writes the message and one line per active frame to stderr (the
  lines of the trace are left out here), then empties the stack and the frame stack.
\<close>

definition runtimeError :: "VM \<Rightarrow> string \<Rightarrow> VM" where
  "runtimeError vm msg = vm\<lparr>stderr := stderr vm @ [msg], stackTop := 0, frameCount := 0\<rparr>"

definition push :: "VM \<Rightarrow> Value \<Rightarrow> VM" where
  "push vm v =
     (if stackTop vm \<ge> STACK_MAX
      then vm\<lparr>stderr := stderr vm @ [''Stack overflow.''], stackTop := 0, frameCount := 0\<rparr>
      else vm\<lparr>stack := (stack vm)(stackTop vm := v), stackTop := stackTop vm + 1\<rparr>)"

text \<open>\<^verbatim>\<open>*vm->stackTop++ = v\<close>, the push without the bounds check.\<close>

definition push_raw :: "VM \<Rightarrow> Value \<Rightarrow> VM" where
  "push_raw vm v = vm\<lparr>stack := (stack vm)(stackTop vm := v), stackTop := stackTop vm + 1\<rparr>"

definition pop :: "VM \<Rightarrow> Value \<times> VM" where
  "pop vm = (stack vm (stackTop vm - 1), vm\<lparr>stackTop := stackTop vm - 1\<rparr>)"

definition peek :: "VM \<Rightarrow> nat \<Rightarrow> Value" where
  "peek vm distance = stack vm (stackTop vm - 1 - distance)"

text \<open>The byte at a code pointer; a pointer outside the code array reads 0 here.\<close>

definition code_at :: "Heap \<Rightarrow> CodePtr \<Rightarrow> 8 word" where
  "code_at hp p =
     (case hp (blk p) of
        Some ho \<Rightarrow>
          (case obj ho of
             ObjFunction a u c n \<Rightarrow> if off p < length (code c) then code c ! off p else 0
           | _ \<Rightarrow> 0)
      | None \<Rightarrow> 0)"

text \<open>\<^verbatim>\<open>frame->closure->function->chunk.constants.values\<close>\<close>

definition closure_function :: "Heap \<Rightarrow> ptr \<Rightarrow> ptr" where
  "closure_function hp c =
     (case hp c of
        Some ho \<Rightarrow> (case obj ho of ObjClosure f us \<Rightarrow> f | _ \<Rightarrow> 0)
      | None \<Rightarrow> 0)"

definition function_constants :: "Heap \<Rightarrow> ptr \<Rightarrow> Value list" where
  "function_constants hp f =
     (case hp f of
        Some ho \<Rightarrow> (case obj ho of ObjFunction a u c n \<Rightarrow> constants c | _ \<Rightarrow> [])
      | None \<Rightarrow> [])"

definition function_arity :: "Heap \<Rightarrow> ptr \<Rightarrow> nat" where
  "function_arity hp f =
     (case hp f of
        Some ho \<Rightarrow> (case obj ho of ObjFunction a u c n \<Rightarrow> a | _ \<Rightarrow> 0)
      | None \<Rightarrow> 0)"

definition STORE_FRAME :: "VM \<Rightarrow> VM" where
  "STORE_FRAME vm = vm\<lparr>frames := (frames vm)(frame vm := (frames vm (frame vm))\<lparr>cf_ip := ip vm\<rparr>)\<rparr>"

definition LOAD_FRAME :: "VM \<Rightarrow> VM" where
  "LOAD_FRAME vm =
     (let i = frameCount vm - 1
      in vm\<lparr>frame := i, ip := cf_ip (frames vm i),
            run_constants := function_constants (heap vm) (closure_function (heap vm) (closure (frames vm i)))\<rparr>)"

definition READ_BYTE :: "VM \<Rightarrow> 8 word \<times> VM" where
  "READ_BYTE vm = (code_at (heap vm) (ip vm), vm\<lparr>ip := (ip vm)\<lparr>off := off (ip vm) + 1\<rparr>\<rparr>)"

definition READ_SHORT :: "VM \<Rightarrow> nat \<times> VM" where
  "READ_SHORT vm =
     (let p = ip vm;
          hi = code_at (heap vm) p;
          lo = code_at (heap vm) (p\<lparr>off := off p + 1\<rparr>)
      in (unat hi * 256 + unat lo, vm\<lparr>ip := p\<lparr>off := off p + 2\<rparr>\<rparr>))"

text \<open>An index past the constant array reads \<^verbatim>\<open>nil\<close> here.\<close>

definition READ_CONSTANT :: "VM \<Rightarrow> Value \<times> VM" where
  "READ_CONSTANT vm =
     (let (b, vm1) = READ_BYTE vm
      in ((if unat b < length (run_constants vm) then run_constants vm ! unat b else NIL_VAL), vm1))"

definition READ_STRING :: "VM \<Rightarrow> ptr \<times> VM" where
  "READ_STRING vm = (let (v, vm1) = READ_CONSTANT vm in (AS_OBJ v, vm1))"

definition string_chars :: "Heap \<Rightarrow> ptr \<Rightarrow> string" where
  "string_chars hp s =
     (case hp s of
        Some ho \<Rightarrow> (case obj ho of ObjString cs h \<Rightarrow> cs | _ \<Rightarrow> [])
      | None \<Rightarrow> [])"

subsection \<open>Opcodes (opcode.h)\<close>

text \<open>The enumeration \<^verbatim>\<open>OpCode\<close>, in its order, as the bytes of the code array.\<close>

definition OP_CONSTANT :: "8 word" where
  "OP_CONSTANT = 0"

definition OP_NIL :: "8 word" where
  "OP_NIL = 1"

definition OP_TRUE :: "8 word" where
  "OP_TRUE = 2"

definition OP_FALSE :: "8 word" where
  "OP_FALSE = 3"

definition OP_ADD :: "8 word" where
  "OP_ADD = 4"

definition OP_SUBTRACT :: "8 word" where
  "OP_SUBTRACT = 5"

definition OP_MULTIPLY :: "8 word" where
  "OP_MULTIPLY = 6"

definition OP_DIVIDE :: "8 word" where
  "OP_DIVIDE = 7"

definition OP_MODULO :: "8 word" where
  "OP_MODULO = 8"

definition OP_NEGATE :: "8 word" where
  "OP_NEGATE = 9"

definition OP_EQUAL :: "8 word" where
  "OP_EQUAL = 10"

definition OP_NOT_EQUAL :: "8 word" where
  "OP_NOT_EQUAL = 11"

definition OP_GREATER :: "8 word" where
  "OP_GREATER = 12"

definition OP_GREATER_EQUAL :: "8 word" where
  "OP_GREATER_EQUAL = 13"

definition OP_LESS :: "8 word" where
  "OP_LESS = 14"

definition OP_LESS_EQUAL :: "8 word" where
  "OP_LESS_EQUAL = 15"

definition OP_NOT :: "8 word" where
  "OP_NOT = 16"

definition OP_GET_LOCAL :: "8 word" where
  "OP_GET_LOCAL = 17"

definition OP_SET_LOCAL :: "8 word" where
  "OP_SET_LOCAL = 18"

definition OP_GET_GLOBAL :: "8 word" where
  "OP_GET_GLOBAL = 19"

definition OP_SET_GLOBAL :: "8 word" where
  "OP_SET_GLOBAL = 20"

definition OP_DEFINE_GLOBAL :: "8 word" where
  "OP_DEFINE_GLOBAL = 21"

definition OP_GET_UPVALUE :: "8 word" where
  "OP_GET_UPVALUE = 22"

definition OP_SET_UPVALUE :: "8 word" where
  "OP_SET_UPVALUE = 23"

definition OP_JUMP :: "8 word" where
  "OP_JUMP = 24"

definition OP_JUMP_IF_FALSE :: "8 word" where
  "OP_JUMP_IF_FALSE = 25"

definition OP_LOOP :: "8 word" where
  "OP_LOOP = 26"

definition OP_CALL :: "8 word" where
  "OP_CALL = 27"

definition OP_CLOSURE :: "8 word" where
  "OP_CLOSURE = 28"

definition OP_RETURN :: "8 word" where
  "OP_RETURN = 29"

definition OP_CLOSE_UPVALUE :: "8 word" where
  "OP_CLOSE_UPVALUE = 30"

definition OP_BUILD_LIST :: "8 word" where
  "OP_BUILD_LIST = 31"

definition OP_BUILD_MAP :: "8 word" where
  "OP_BUILD_MAP = 32"

definition OP_INDEX_GET :: "8 word" where
  "OP_INDEX_GET = 33"

definition OP_INDEX_SET :: "8 word" where
  "OP_INDEX_SET = 34"

definition OP_GET_PROPERTY :: "8 word" where
  "OP_GET_PROPERTY = 35"

definition OP_SET_PROPERTY :: "8 word" where
  "OP_SET_PROPERTY = 36"

definition OP_PRINT :: "8 word" where
  "OP_PRINT = 37"

definition OP_POP :: "8 word" where
  "OP_POP = 38"

definition OP_ALLOW :: "8 word" where
  "OP_ALLOW = 39"

definition OP_PUSH_HANDLER :: "8 word" where
  "OP_PUSH_HANDLER = 40"

definition OP_POP_HANDLER :: "8 word" where
  "OP_POP_HANDLER = 41"

definition OP_THROW :: "8 word" where
  "OP_THROW = 42"

definition OP_IMPORT :: "8 word" where
  "OP_IMPORT = 43"

lemmas opcode_defs =
  OP_CONSTANT_def OP_NIL_def OP_TRUE_def OP_FALSE_def OP_ADD_def
  OP_SUBTRACT_def OP_MULTIPLY_def OP_DIVIDE_def OP_MODULO_def OP_NEGATE_def
  OP_EQUAL_def OP_NOT_EQUAL_def OP_GREATER_def OP_GREATER_EQUAL_def OP_LESS_def
  OP_LESS_EQUAL_def OP_NOT_def OP_GET_LOCAL_def OP_SET_LOCAL_def OP_GET_GLOBAL_def
  OP_SET_GLOBAL_def OP_DEFINE_GLOBAL_def OP_GET_UPVALUE_def OP_SET_UPVALUE_def OP_JUMP_def
  OP_JUMP_IF_FALSE_def OP_LOOP_def OP_CALL_def OP_CLOSURE_def OP_RETURN_def
  OP_CLOSE_UPVALUE_def OP_BUILD_LIST_def OP_BUILD_MAP_def OP_INDEX_GET_def OP_INDEX_SET_def
  OP_GET_PROPERTY_def OP_SET_PROPERTY_def OP_PRINT_def OP_POP_def OP_ALLOW_def
  OP_PUSH_HANDLER_def OP_POP_HANDLER_def OP_THROW_def OP_IMPORT_def

subsection \<open>Logic and jumps\<close>

definition op_NOT :: "VM \<Rightarrow> Outcome" where
  "op_NOT vm =
     Next (vm\<lparr>stack := (stack vm)(stackTop vm - 1 := BOOL_VAL (isFalsey (stack vm (stackTop vm - 1))))\<rparr>)"

definition op_JUMP :: "VM \<Rightarrow> Outcome" where
  "op_JUMP vm =
     (let (offset, vm1) = READ_SHORT vm
      in Next (vm1\<lparr>ip := (ip vm1)\<lparr>off := off (ip vm1) + offset\<rparr>\<rparr>))"

definition op_JUMP_IF_FALSE :: "VM \<Rightarrow> Outcome" where
  "op_JUMP_IF_FALSE vm =
     (let (offset, vm1) = READ_SHORT vm
      in if isFalsey (stack vm1 (stackTop vm1 - 1))
         then Next (vm1\<lparr>ip := (ip vm1)\<lparr>off := off (ip vm1) + offset\<rparr>\<rparr>)
         else Next vm1)"

definition op_LOOP :: "VM \<Rightarrow> Outcome" where
  "op_LOOP vm =
     (let (offset, vm1) = READ_SHORT vm
      in Next (vm1\<lparr>ip := (ip vm1)\<lparr>off := off (ip vm1) - offset\<rparr>\<rparr>))"

definition op_POP :: "VM \<Rightarrow> Outcome" where
  "op_POP vm = Next (vm\<lparr>stackTop := stackTop vm - 1\<rparr>)"

subsection \<open>Division\<close>

text \<open>
  The quotient of two doubles is not modelled: \<open>fdiv\<close> stands for IEEE-754 division
  on the two bit patterns. The checks before it are the code's.
\<close>

definition op_DIVIDE :: "(Value \<Rightarrow> Value \<Rightarrow> Value) \<Rightarrow> VM \<Rightarrow> Outcome" where
  "op_DIVIDE fdiv vm =
     (if \<not> IS_NUMBER (stack vm (stackTop vm - 1)) \<or> \<not> IS_NUMBER (stack vm (stackTop vm - 2))
      then Return INTERPRET_RUNTIME_ERROR (runtimeError (STORE_FRAME vm) ''Operands must be numbers.'')
      else if number_eq_zero (stack vm (stackTop vm - 1))
      then Return INTERPRET_RUNTIME_ERROR (runtimeError (STORE_FRAME vm) ''Division by zero.'')
      else Next (vm\<lparr>stack := (stack vm)(stackTop vm - 2 :=
                          fdiv (stack vm (stackTop vm - 2)) (stack vm (stackTop vm - 1))),
                     stackTop := stackTop vm - 1\<rparr>))"

subsection \<open>Error handlers\<close>

definition op_PUSH_HANDLER :: "VM \<Rightarrow> Outcome" where
  "op_PUSH_HANDLER vm =
     (let (offset, vm1) = READ_SHORT vm
      in if handlerCount vm1 \<ge> HANDLER_MAX
         then Return INTERPRET_RUNTIME_ERROR
                (runtimeError (STORE_FRAME vm1) ''Too many nested error handlers.'')
         else Next (vm1\<lparr>handlers := (handlers vm1)(handlerCount vm1 :=
                            (handlers vm1 (handlerCount vm1))
                              \<lparr>handlerIP := (ip vm1)\<lparr>off := off (ip vm1) + offset\<rparr>,
                               eh_frameCount := frameCount vm1,
                               eh_stackTop := stackTop vm1\<rparr>),
                         handlerCount := handlerCount vm1 + 1\<rparr>))"

definition op_POP_HANDLER :: "VM \<Rightarrow> Outcome" where
  "op_POP_HANDLER vm =
     (if handlerCount vm > 0 then Next (vm\<lparr>handlerCount := handlerCount vm - 1\<rparr>) else Next vm)"

subsection \<open>Calls and the dispatch of a raised error\<close>

definition callClosure :: "VM \<Rightarrow> ptr \<Rightarrow> nat \<Rightarrow> bool \<times> VM" where
  "callClosure vm c argCount =
     (let f = closure_function (heap vm) c
      in if argCount \<noteq> function_arity (heap vm) f
         then (False, runtimeError vm (''Expected '' @ dec (function_arity (heap vm) f)
                         @ '' arguments but got '' @ dec argCount @ ''.''))
         else if frameCount vm = FRAMES_MAX
         then (False, runtimeError vm ''Stack overflow.'')
         else (True, vm\<lparr>frames := (frames vm)(frameCount vm :=
                           \<lparr>closure = c, cf_ip = \<lparr>blk = f, off = 0\<rparr>,
                            slots = stackTop vm - argCount - 1\<rparr>),
                         frameCount := frameCount vm + 1\<rparr>))"

definition callValue :: "(nat \<Rightarrow> NativeFn) \<Rightarrow> VM \<Rightarrow> Value \<Rightarrow> nat \<Rightarrow> bool \<times> VM" where
  "callValue natives vm callee argCount =
     (case (if IS_OBJ callee then map_option obj (heap vm (AS_OBJ callee)) else None) of
        Some (ObjClosure f us) \<Rightarrow> callClosure vm (AS_OBJ callee) argCount
      | Some (ObjNative fn name arity) \<Rightarrow>
          if arity \<ge> 0 \<and> int argCount \<noteq> arity
          then (False, runtimeError vm (''Expected '' @ dec (nat arity)
                          @ '' arguments but got '' @ dec argCount @ ''.''))
          else (let (result, vm1) = natives fn vm argCount (stackTop vm - argCount)
                in (True, push (vm1\<lparr>stackTop := stackTop vm1 - (argCount + 1)\<rparr>) result))
      | _ \<Rightarrow> (False, runtimeError vm ''Can only call functions.''))"

text \<open>
  The message of an error map, as the branch without a handler reads it: the value under
  the key \<^verbatim>\<open>message\<close> when it is a string. The key is found by its bytes, which is
  what the lookup of the interned key does.
\<close>

definition error_message :: "Heap \<Rightarrow> Value \<Rightarrow> string option" where
  "error_message hp e =
     (case (if IS_OBJ e then map_option obj (hp (AS_OBJ e)) else None) of
        Some (ObjMap t) \<Rightarrow>
          (case filter (\<lambda>en. case e_key en of None \<Rightarrow> False
                                | Some k \<Rightarrow> isObjType hp (OBJ_VAL k) OBJ_STRING
                                      \<and> string_chars hp k = ''message'') (entries t) of
             [] \<Rightarrow> None
           | en # _ \<Rightarrow>
               if isObjType hp (e_value en) OBJ_STRING
               then Some (string_chars hp (AS_OBJ (e_value en))) else None)
      | _ \<Rightarrow> None)"

text \<open>
  The check that follows every call (\<^verbatim>\<open>if (vm->hasError) ...\<close> in
  \<^verbatim>\<open>CASE(CALL)\<close>): the topmost handler fires, or the error is printed and
  \<^verbatim>\<open>run\<close> returns.
\<close>

definition dispatch_error :: "VM \<Rightarrow> Outcome" where
  "dispatch_error vm =
     (if hasError vm then
        (if handlerCount vm > 0 then
           (let handler = handlers vm (handlerCount vm - 1);
                vm1 = LOAD_FRAME (vm\<lparr>frameCount := eh_frameCount handler\<rparr>);
                vm2 = push (vm1\<lparr>stackTop := eh_stackTop handler\<rparr>) (currentError vm1)
            in Next (vm2\<lparr>ip := handlerIP handler, hasError := False, currentError := NIL_VAL\<rparr>))
         else
           (let vm1 = (case error_message (heap vm) (currentError vm) of
                         Some msg \<Rightarrow> runtimeError (STORE_FRAME vm) msg
                       | None \<Rightarrow> runtimeError (STORE_FRAME vm) ''Runtime error.'')
            in Return INTERPRET_RUNTIME_ERROR (vm1\<lparr>hasError := False, currentError := NIL_VAL\<rparr>)))
      else Next vm)"

definition op_CALL :: "(nat \<Rightarrow> NativeFn) \<Rightarrow> VM \<Rightarrow> Outcome" where
  "op_CALL natives vm =
     (let (b, vm1) = READ_BYTE vm;
          argCount = unat b;
          vm2 = STORE_FRAME vm1;
          (ok, vm3) = callValue natives vm2 (peek vm2 argCount) argCount
      in if \<not> ok then Return INTERPRET_RUNTIME_ERROR vm3
         else dispatch_error (LOAD_FRAME vm3))"

subsection \<open>Globals and their inline cache\<close>

definition ic_slot :: "Heap \<Rightarrow> ptr \<Rightarrow> nat" where
  "ic_slot hp name = unat (key_hash hp name AND of_nat (GLOBAL_IC_SIZE - 1))"

definition op_GET_GLOBAL :: "VM \<Rightarrow> Outcome" where
  "op_GET_GLOBAL vm =
     (let (name, vm1) = READ_STRING vm;
          slot = ic_slot (heap vm1) name;
          ic = globalIC vm1 slot
      in if ic_key ic = name \<and> tableCapacity ic = length (entries (globals vm1))
         then Next (push_raw vm1 (e_value (entries (globals vm1) ! ic_entry ic)))
         else (case tableGetEntry (key_hash (heap vm1)) NIL_VAL (globals vm1) name of
                 None \<Rightarrow> Hang
               | Some None \<Rightarrow>
                   Return INTERPRET_RUNTIME_ERROR
                     (runtimeError (STORE_FRAME vm1)
                        (''Undefined variable '' @ [CHR 0x27] @ string_chars (heap vm1) name
                           @ [CHR 0x27] @ ''.''))
               | Some (Some entry) \<Rightarrow>
                   Next (push_raw
                     (vm1\<lparr>globalIC := (globalIC vm1)(slot :=
                             \<lparr>ic_key = name, ic_entry = entry,
                              tableCapacity = length (entries (globals vm1))\<rparr>)\<rparr>)
                     (e_value (entries (globals vm1) ! entry)))))"

text \<open>
  In the miss branch of \<^verbatim>\<open>OP_SET_GLOBAL\<close> the result of \<^verbatim>\<open>tableGetEntry\<close> is
  not tested; the entry pointer of a failed lookup would be uninitialised and is 0 here.
\<close>

definition op_SET_GLOBAL :: "VM \<Rightarrow> Outcome" where
  "op_SET_GLOBAL vm =
     (let (name, vm1) = READ_STRING vm;
          v = stack vm1 (stackTop vm1 - 1);
          slot = ic_slot (heap vm1) name;
          ic = globalIC vm1 slot
      in if ic_key ic = name \<and> tableCapacity ic = length (entries (globals vm1))
         then Next (vm1\<lparr>globals := Table (count (globals vm1))
                      ((entries (globals vm1))[ic_entry ic :=
                         Entry (e_key (entries (globals vm1) ! ic_entry ic)) v])\<rparr>)
         else (case tableSet (key_hash (heap vm1)) NIL_VAL (globals vm1) name v of
                 None \<Rightarrow> Hang
               | Some (isNew, g) \<Rightarrow>
                   (case tableGetEntry (key_hash (heap vm1)) NIL_VAL g name of
                      None \<Rightarrow> Hang
                    | Some r \<Rightarrow>
                        Next (vm1\<lparr>globals := g,
                                  globalIC := (globalIC vm1)(slot :=
                                    \<lparr>ic_key = name,
                                     ic_entry = (case r of Some entry \<Rightarrow> entry | None \<Rightarrow> 0),
                                     tableCapacity = length (entries g)\<rparr>)\<rparr>))))"

definition op_DEFINE_GLOBAL :: "VM \<Rightarrow> Outcome" where
  "op_DEFINE_GLOBAL vm =
     (let (name, vm1) = READ_STRING vm
      in case tableSet (key_hash (heap vm1)) NIL_VAL (globals vm1) name (stack vm1 (stackTop vm1 - 1)) of
           None \<Rightarrow> Hang
         | Some (isNew, g) \<Rightarrow> Next (vm1\<lparr>globals := g, stackTop := stackTop vm1 - 1\<rparr>))"

text \<open>
  The end of \<^verbatim>\<open>CASE(IMPORT)\<close>, after the module's top level has run: every key
  of the globals that the snapshot \<open>existingGlobals\<close> lacks moves into the module map and
  is deleted from the globals. The loop visits the entry array by index.
\<close>

definition import_diff_step ::
    "(ptr \<Rightarrow> 32 word) \<Rightarrow> (ptr, Value) Table \<Rightarrow> nat
      \<Rightarrow> (ptr, Value) Table \<times> (ptr, Value) Table
      \<Rightarrow> ((ptr, Value) Table \<times> (ptr, Value) Table) option" where
  "import_diff_step h existingGlobals i gm =
     (let (g, moduleMap) = gm
      in case e_key (entries g ! i) of
           None \<Rightarrow> Some (g, moduleMap)
         | Some k \<Rightarrow>
             (case tableGet h NIL_VAL existingGlobals k of
                None \<Rightarrow> None
              | Some (Some dummy) \<Rightarrow> Some (g, moduleMap)
              | Some None \<Rightarrow>
                  (case tableSet h NIL_VAL moduleMap k (e_value (entries g ! i)) of
                     None \<Rightarrow> None
                   | Some (b, m') \<Rightarrow>
                       (case tableDelete h NIL_VAL (BOOL_VAL True) g k of
                          None \<Rightarrow> None
                        | Some (b', g') \<Rightarrow> Some (g', m')))))"

fun import_diff_loop ::
    "(ptr \<Rightarrow> 32 word) \<Rightarrow> (ptr, Value) Table \<Rightarrow> nat list
      \<Rightarrow> (ptr, Value) Table \<times> (ptr, Value) Table
      \<Rightarrow> ((ptr, Value) Table \<times> (ptr, Value) Table) option" where
  "import_diff_loop h existingGlobals [] gm = Some gm"
| "import_diff_loop h existingGlobals (i # is) gm =
     (case import_diff_step h existingGlobals i gm of
        None \<Rightarrow> None
      | Some gm' \<Rightarrow> import_diff_loop h existingGlobals is gm')"

text \<open>
  The statements of \<^verbatim>\<open>CASE(IMPORT)\<close> from \<^verbatim>\<open>newMap\<close> on. \<open>mp\<close> is the address
  the allocator returns for the module map; the map is kept on the stack while the loop
  runs, then cached under the path and bound in the globals under the binding name.
\<close>

definition import_finish :: "VM \<Rightarrow> (ptr, Value) Table \<Rightarrow> ptr \<Rightarrow> ptr \<Rightarrow> ptr \<Rightarrow> VM option" where
  "import_finish vm existingGlobals path modName mp =
     (let h = key_hash (heap vm);
          vm1 = push (vm\<lparr>heap := (heap vm)(mp \<mapsto> \<lparr>obj = ObjMap initTable, isMarked = False\<rparr>),
                         objects := mp # objects vm\<rparr>) (OBJ_VAL mp)
      in case import_diff_loop h existingGlobals [0..<length (entries (globals vm1))]
                (globals vm1, initTable) of
           None \<Rightarrow> None
         | Some (g, moduleMap) \<Rightarrow>
             (let vm2 = snd (pop (vm1\<lparr>globals := g,
                          heap := (heap vm1)(mp \<mapsto> \<lparr>obj = ObjMap moduleMap, isMarked = False\<rparr>)\<rparr>))
              in case tableSet h NIL_VAL (modules vm2) path (OBJ_VAL mp) of
                   None \<Rightarrow> None
                 | Some (b, ms) \<Rightarrow>
                     (case tableSet h NIL_VAL (globals vm2) modName (OBJ_VAL mp) of
                        None \<Rightarrow> None
                      | Some (b', g') \<Rightarrow> Some (LOAD_FRAME (vm2\<lparr>modules := ms, globals := g'\<rparr>)))))"

subsection \<open>Stack instructions\<close>

definition op_CONSTANT :: "VM \<Rightarrow> Outcome" where
  "op_CONSTANT vm = (let (v, vm1) = READ_CONSTANT vm in Next (push_raw vm1 v))"

definition op_NIL :: "VM \<Rightarrow> Outcome" where
  "op_NIL vm = Next (push_raw vm NIL_VAL)"

definition op_TRUE :: "VM \<Rightarrow> Outcome" where
  "op_TRUE vm = Next (push_raw vm TRUE_VAL)"

definition op_FALSE :: "VM \<Rightarrow> Outcome" where
  "op_FALSE vm = Next (push_raw vm FALSE_VAL)"

definition op_GET_LOCAL :: "VM \<Rightarrow> Outcome" where
  "op_GET_LOCAL vm =
     (let (slot, vm1) = READ_BYTE vm
      in Next (push_raw vm1 (stack vm1 (slots (frames vm1 (frame vm1)) + unat slot))))"

definition op_SET_LOCAL :: "VM \<Rightarrow> Outcome" where
  "op_SET_LOCAL vm =
     (let (slot, vm1) = READ_BYTE vm
      in Next (vm1\<lparr>stack := (stack vm1)(slots (frames vm1 (frame vm1)) + unat slot :=
                                  stack vm1 (stackTop vm1 - 1))\<rparr>))"

subsection \<open>The dispatch loop\<close>

text \<open>
  One round of the loop of \<^verbatim>\<open>run\<close>: read the opcode, execute the instruction.
  The instructions modelled in this theory are dispatched; for any other opcode the
  result is \<open>None\<close>, which says nothing about what the machine does there.
\<close>

definition step :: "(nat \<Rightarrow> NativeFn) \<Rightarrow> (Value \<Rightarrow> Value \<Rightarrow> Value) \<Rightarrow> VM \<Rightarrow> Outcome option" where
  "step natives fdiv vm =
     (let (instruction, vm1) = READ_BYTE vm
      in if instruction = OP_CONSTANT then Some (op_CONSTANT vm1)
         else if instruction = OP_NIL then Some (op_NIL vm1)
         else if instruction = OP_TRUE then Some (op_TRUE vm1)
         else if instruction = OP_FALSE then Some (op_FALSE vm1)
         else if instruction = OP_DIVIDE then Some (op_DIVIDE fdiv vm1)
         else if instruction = OP_NOT then Some (op_NOT vm1)
         else if instruction = OP_GET_LOCAL then Some (op_GET_LOCAL vm1)
         else if instruction = OP_SET_LOCAL then Some (op_SET_LOCAL vm1)
         else if instruction = OP_GET_GLOBAL then Some (op_GET_GLOBAL vm1)
         else if instruction = OP_SET_GLOBAL then Some (op_SET_GLOBAL vm1)
         else if instruction = OP_DEFINE_GLOBAL then Some (op_DEFINE_GLOBAL vm1)
         else if instruction = OP_JUMP then Some (op_JUMP vm1)
         else if instruction = OP_JUMP_IF_FALSE then Some (op_JUMP_IF_FALSE vm1)
         else if instruction = OP_LOOP then Some (op_LOOP vm1)
         else if instruction = OP_CALL then Some (op_CALL natives vm1)
         else if instruction = OP_POP then Some (op_POP vm1)
         else if instruction = OP_PUSH_HANDLER then Some (op_PUSH_HANDLER vm1)
         else if instruction = OP_POP_HANDLER then Some (op_POP_HANDLER vm1)
         else if instruction = OP_THROW then Some (Next vm1)
         else None)"

fun steps :: "(nat \<Rightarrow> NativeFn) \<Rightarrow> (Value \<Rightarrow> Value \<Rightarrow> Value) \<Rightarrow> nat \<Rightarrow> VM \<Rightarrow> Outcome option" where
  "steps natives fdiv 0 vm = Some (Next vm)"
| "steps natives fdiv (Suc n) vm =
     (case step natives fdiv vm of
        Some (Next vm') \<Rightarrow> steps natives fdiv n vm'
      | r \<Rightarrow> r)"

subsection \<open>The initial state\<close>

text \<open>
  \<^verbatim>\<open>initVM\<close> up to the registration of the natives: the field initialisations.
  What the C leaves uninitialised (the frame, stack and handler arrays, the locals of
  \<^verbatim>\<open>run\<close>) is zero here.
\<close>

definition initVM :: VM where
  "initVM =
     \<lparr>frames = (\<lambda>i. \<lparr>closure = 0, cf_ip = \<lparr>blk = 0, off = 0\<rparr>, slots = 0\<rparr>),
      frameCount = 0,
      stack = (\<lambda>i. 0),
      stackTop = 0,
      globals = initTable,
      strings = initTable,
      openUpvalues = [],
      objects = [],
      heap = (\<lambda>p. None),
      grayStack = [],
      vm_permissions = initPermissions,
      handlers = (\<lambda>i. \<lparr>handlerIP = \<lparr>blk = 0, off = 0\<rparr>, eh_frameCount = 0,
                          eh_stackTop = 0, scopeDepth = 0\<rparr>),
      handlerCount = 0,
      hasError = False,
      currentError = NIL_VAL,
      globalIC = (\<lambda>i. \<lparr>ic_key = 0, ic_entry = 0, tableCapacity = 0\<rparr>),
      baseFrameCount = 0,
      modules = initTable,
      frame = 0,
      ip = \<lparr>blk = 0, off = 0\<rparr>,
      run_constants = [],
      stderr = []\<rparr>"

definition next_vm :: "Outcome \<Rightarrow> VM" where
  "next_vm r = (case r of Next vm \<Rightarrow> vm | Return res vm \<Rightarrow> vm | Hang \<Rightarrow> initVM)"

subsection \<open>A script with two nested handlers\<close>

text \<open>
  A chunk assembled by hand, with two handler regions, the second inside the protected
  statements of the first, laid out the way \<^verbatim>\<open>compileStatements\<close> lays out an
  \<^verbatim>\<open>on failure\<close>: \<^verbatim>\<open>OP_PUSH_HANDLER\<close>, the protected statements,
  \<^verbatim>\<open>OP_POP_HANDLER\<close>, a jump over the handler body, the handler body, and the
  \<^verbatim>\<open>OP_POP\<close> of its local \<^verbatim>\<open>error\<close>. Offset 0 pushes the outer handler
  (target 25), offset 3 the inner one (target 15), offsets 6 to 10 are the protected call
  \<^verbatim>\<open>fail()\<close>, offset 15 starts the body of the inner handler, which calls
  \<^verbatim>\<open>fail()\<close> again, and offset 25 the body of the outer one, \<^verbatim>\<open>print("outer")\<close>.
  The heap holds the script's function and closure, the name strings, and a native
  \<open>fail\<close> that raises an error the way \<^verbatim>\<open>raiseError\<close> ends: it sets \<open>hasError\<close>
  and stores an error map in \<open>currentError\<close>.
\<close>

definition nested_chunk :: Chunk where
  "nested_chunk =
     \<lparr>code = [40, 0, 22, 40, 0, 9, 19, 0, 27, 0, 38, 41, 24, 0, 6,
              19, 0, 27, 0, 38, 38, 41, 24, 0, 8,
              19, 1, 0, 2, 27, 1, 38, 38, 1, 29],
      lines = [],
      constants = [OBJ_VAL 8, OBJ_VAL 48, OBJ_VAL 56],
      constantIndex = initTable\<rparr>"

definition nested_heap :: Heap where
  "nested_heap =
     (\<lambda>p. None)
       (8 \<mapsto> \<lparr>obj = ObjString ''fail'' (hashString ''fail''), isMarked = False\<rparr>,
        16 \<mapsto> \<lparr>obj = ObjNative 0 ''fail'' (- 1), isMarked = False\<rparr>,
        24 \<mapsto> \<lparr>obj = ObjFunction 0 0 nested_chunk 0, isMarked = False\<rparr>,
        32 \<mapsto> \<lparr>obj = ObjClosure 24 [], isMarked = False\<rparr>,
        40 \<mapsto> \<lparr>obj = ObjMap initTable, isMarked = False\<rparr>,
        48 \<mapsto> \<lparr>obj = ObjString ''print'' (hashString ''print''), isMarked = False\<rparr>,
        56 \<mapsto> \<lparr>obj = ObjString ''outer'' (hashString ''outer''), isMarked = False\<rparr>)"

definition failNative :: "nat \<Rightarrow> NativeFn" where
  "failNative fn vm argCount args =
     (NIL_VAL, vm\<lparr>hasError := True, currentError := OBJ_VAL 40\<rparr>)"

definition nested_globals :: "(ptr, Value) Table" where
  "nested_globals =
     (case tableSet (key_hash nested_heap) NIL_VAL initTable 8 (OBJ_VAL 16) of
        Some (b, t) \<Rightarrow> t
      | None \<Rightarrow> initTable)"

definition nested_vm :: VM where
  "nested_vm =
     initVM\<lparr>heap := nested_heap,
            globals := nested_globals,
            frames := (frames initVM)
              (0 := \<lparr>closure = 32, cf_ip = \<lparr>blk = 24, off = 0\<rparr>, slots = 0\<rparr>),
            frameCount := 1,
            stack := (stack initVM)(0 := OBJ_VAL 32),
            stackTop := 1,
            ip := \<lparr>blk = 24, off = 0\<rparr>,
            run_constants := constants nested_chunk\<rparr>"

text \<open>The double \<open>1.0\<close> over the double \<open>0.0\<close> on the stack, one handler registered.\<close>

definition div_vm :: VM where
  "div_vm =
     initVM\<lparr>frameCount := 1,
            stack := (stack initVM)(0 := 0x3FF0000000000000, 1 := 0),
            stackTop := 2,
            handlerCount := 1\<rparr>"

subsection \<open>A global assigned by an imported module\<close>

text \<open>
  A chunk with the instructions \<^verbatim>\<open>OP_CONSTANT 1; OP_SET_GLOBAL x; OP_POP\<close> (offset 0,
  what a module compiles \<^verbatim>\<open>x = 1\<close> in a block to), \<^verbatim>\<open>OP_GET_GLOBAL x; OP_POP\<close>
  (offset 5, a later read of \<open>x\<close>) and \<^verbatim>\<open>OP_NIL; OP_SET_GLOBAL x; OP_POP\<close>
  (offset 8, a later assignment). The heap holds the interned names \<open>x\<close>, the binding
  name \<open>m\<close> and the path \<open>m.glipt\<close>.
\<close>

definition ic_chunk :: Chunk where
  "ic_chunk =
     \<lparr>code = [0, 1, 20, 0, 38, 19, 0, 38, 1, 20, 0, 38],
      lines = [],
      constants = [OBJ_VAL 8, 0x3FF0000000000000],
      constantIndex = initTable\<rparr>"

definition ic_heap :: Heap where
  "ic_heap =
     (\<lambda>p. None)
       (8 \<mapsto> \<lparr>obj = ObjString ''x'' (hashString ''x''), isMarked = False\<rparr>,
        16 \<mapsto> \<lparr>obj = ObjString ''m'' (hashString ''m''), isMarked = False\<rparr>,
        24 \<mapsto> \<lparr>obj = ObjFunction 0 0 ic_chunk 0, isMarked = False\<rparr>,
        32 \<mapsto> \<lparr>obj = ObjClosure 24 [], isMarked = False\<rparr>,
        40 \<mapsto> \<lparr>obj = ObjString ''m.glipt'' (hashString ''m.glipt''), isMarked = False\<rparr>)"

definition ic_vm :: VM where
  "ic_vm =
     initVM\<lparr>heap := ic_heap,
            frames := (frames initVM)
              (0 := \<lparr>closure = 32, cf_ip = \<lparr>blk = 24, off = 0\<rparr>, slots = 0\<rparr>),
            frameCount := 1,
            stack := (stack initVM)(0 := OBJ_VAL 32),
            stackTop := 1,
            ip := \<lparr>blk = 24, off = 0\<rparr>,
            run_constants := constants ic_chunk\<rparr>"

text \<open>
  The end of the import of that module into a state whose globals were empty before, with
  the module map allocated at address 48; the importing code goes on at offset \<open>at\<close>.
  The module and the importing code share the one chunk and the one frame here. The
  module returns \<^verbatim>\<open>nil\<close>, which \<^verbatim>\<open>OP_RETURN\<close> leaves on the importer's
  stack in the slot above the script's closure: the importing code goes on with these two
  values on the stack.
\<close>

definition ic_after_import :: "VM \<Rightarrow> nat \<Rightarrow> VM" where
  "ic_after_import vm at =
     (case import_finish (vm\<lparr>stack := (stack vm)(stackTop vm - 1 := NIL_VAL)\<rparr>)
             initTable 40 16 48 of
        Some vm' \<Rightarrow> vm'\<lparr>ip := \<lparr>blk = 24, off = at\<rparr>\<rparr>
      | None \<Rightarrow> vm)"

text \<open>The state after the first two instructions (the module's assignment to \<open>x\<close>).\<close>

definition ic_vm2 :: VM where
  "ic_vm2 = ic_vm\<lparr>ip := \<lparr>blk = 24, off = 4\<rparr>,
        stack := (stack ic_vm)(1 := 0x3FF0000000000000),
        stackTop := 2,
        globals := Table 1 ((replicate 8 emptyEntry)
                     [7 := (Entry (Some 8) (0x3FF0000000000000))]),
        globalIC := (globalIC ic_vm)(135 := \<lparr>ic_key = 8, ic_entry = 7, tableCapacity = 8\<rparr>)\<rparr>"

section \<open>The garbage collector (memory.c)\<close>

text \<open>
  \<^verbatim>\<open>markObject\<close>: a \<^verbatim>\<open>NULL\<close> pointer and a marked object are left alone;
  otherwise the mark bit is set and the object goes on top of the gray stack (the end of
  the list). A pointer to no object of the heap is left alone here.
\<close>

definition markObject :: "VM \<Rightarrow> ptr \<Rightarrow> VM" where
  "markObject vm object =
     (if object = 0 then vm
      else case heap vm object of
             None \<Rightarrow> vm
           | Some ho \<Rightarrow>
               if isMarked ho then vm
               else vm\<lparr>heap := (heap vm)(object \<mapsto> ho\<lparr>isMarked := True\<rparr>),
                       grayStack := grayStack vm @ [object]\<rparr>)"

definition markValue :: "VM \<Rightarrow> Value \<Rightarrow> VM" where
  "markValue vm v = (if IS_OBJ v then markObject vm (AS_OBJ v) else vm)"

definition markArray :: "VM \<Rightarrow> Value list \<Rightarrow> VM" where
  "markArray vm array = foldl markValue vm array"

text \<open>
  Modelled from the spec: \<^verbatim>\<open>markTable\<close> is part of the missing \<^verbatim>\<open>table.c\<close>.
  The specification lets the collector scan the entries of a table for outgoing references:
  the key and the value of every entry are marked.
\<close>

definition markTable :: "VM \<Rightarrow> (ptr, Value) Table \<Rightarrow> VM" where
  "markTable vm t =
     foldl (\<lambda>vm e. markValue (case e_key e of None \<Rightarrow> vm | Some k \<Rightarrow> markObject vm k) (e_value e))
       vm (entries t)"

text \<open>
  \<^verbatim>\<open>markRoots\<close>: the stack below the stack top, the closures of the active frames,
  the open upvalues, the globals, the module cache. The function ends with the comment
  ``Mark compiler roots (if compiling)'' and no statement.
\<close>

definition markRoots :: "VM \<Rightarrow> VM" where
  "markRoots vm =
     (let vm1 = foldl (\<lambda>vm slot. markValue vm (stack vm slot)) vm [0..<stackTop vm];
          vm2 = foldl (\<lambda>vm i. markObject vm (closure (frames vm i))) vm1 [0..<frameCount vm1];
          vm3 = foldl markObject vm2 (openUpvalues vm2);
          vm4 = markTable vm3 (globals vm3)
      in markTable vm4 (modules vm4))"

definition blackenObject :: "VM \<Rightarrow> ptr \<Rightarrow> VM" where
  "blackenObject vm object =
     (case map_option obj (heap vm object) of
        Some (ObjClosure f us) \<Rightarrow> foldl markObject (markObject vm f) us
      | Some (ObjFunction a u c name) \<Rightarrow> markArray (markObject vm name) (constants c)
      | Some (ObjUpvalue l closed) \<Rightarrow> markValue vm closed
      | Some (ObjList items) \<Rightarrow> foldl markValue vm items
      | Some (ObjMap t) \<Rightarrow> markTable vm t
      | _ \<Rightarrow> vm)"

text \<open>
  \<^verbatim>\<open>traceReferences\<close> pops gray objects until the gray stack is empty. The loop is
  given fuel; \<open>None\<close> means the fuel ran out before the stack was empty.
\<close>

fun traceReferences :: "nat \<Rightarrow> VM \<Rightarrow> VM option" where
  "traceReferences 0 vm = (if grayStack vm = [] then Some vm else None)"
| "traceReferences (Suc fuel) vm =
     (if grayStack vm = [] then Some vm
      else traceReferences fuel
             (blackenObject (vm\<lparr>grayStack := butlast (grayStack vm)\<rparr>) (last (grayStack vm))))"

text \<open>
  Modelled from the spec: \<^verbatim>\<open>tableRemoveWhite\<close> is part of the missing
  \<^verbatim>\<open>table.c\<close>. Before the sweep, the interned strings that are not marked are
  removed from the intern table: their entries become tombstones.
\<close>

definition tableRemoveWhite :: "Heap \<Rightarrow> (ptr, Value) Table \<Rightarrow> (ptr, Value) Table" where
  "tableRemoveWhite hp t =
     Table (count t) (map (\<lambda>e. case e_key e of
                               None \<Rightarrow> e
                             | Some k \<Rightarrow>
                                 (case hp k of
                                    Some ho \<Rightarrow> if isMarked ho then e else tombstoneEntry
                                  | None \<Rightarrow> e)) (entries t))"

text \<open>
  \<^verbatim>\<open>sweep\<close> walks the object list: a marked object loses its mark and stays, an
  unmarked one is unlinked and freed (\<^verbatim>\<open>freeObject\<close>: the address holds no object
  any more).
\<close>

fun sweep_loop :: "ptr list \<Rightarrow> Heap \<Rightarrow> ptr list \<times> Heap" where
  "sweep_loop [] hp = ([], hp)"
| "sweep_loop (object # rest) hp =
     (case hp object of
        None \<Rightarrow> sweep_loop rest hp
      | Some ho \<Rightarrow>
          if isMarked ho
          then (let (os, hp') = sweep_loop rest (hp(object \<mapsto> ho\<lparr>isMarked := False\<rparr>))
                in (object # os, hp'))
          else sweep_loop rest (hp(object := None)))"

definition sweep :: "VM \<Rightarrow> VM" where
  "sweep vm = (let (os, hp) = sweep_loop (objects vm) (heap vm) in vm\<lparr>objects := os, heap := hp\<rparr>)"

definition collectGarbage :: "nat \<Rightarrow> VM \<Rightarrow> VM option" where
  "collectGarbage fuel vm =
     (case traceReferences fuel (markRoots vm) of
        None \<Rightarrow> None
      | Some vm1 \<Rightarrow> Some (sweep (vm1\<lparr>strings := tableRemoveWhite (heap vm1) (strings vm1)\<rparr>)))"

subsection \<open>A collection while a module is compiled\<close>

text \<open>
  The state in which \<^verbatim>\<open>makeConstant\<close> has installed the string \<open>greet\<close> (address 8)
  in the constant pool of the function being compiled (address 16), while the script that
  imports the module runs: its function (24) and closure (32) are on the stack and in
  frame 0. The function being compiled is referenced by the \<^verbatim>\<open>Compiler\<close> struct on
  the C stack only; the string is in the intern table.
\<close>

definition compiling_heap :: Heap where
  "compiling_heap =
     (\<lambda>p. None)
       (8 \<mapsto> \<lparr>obj = ObjString ''greet'' (hashString ''greet''), isMarked = False\<rparr>,
        16 \<mapsto> \<lparr>obj = ObjFunction 0 0
                  \<lparr>code = [], lines = [], constants = [OBJ_VAL 8], constantIndex = initTable\<rparr> 0,
               isMarked = False\<rparr>,
        24 \<mapsto> \<lparr>obj = ObjFunction 0 0
                  \<lparr>code = [43, 0, 1], lines = [], constants = [], constantIndex = initTable\<rparr> 0,
               isMarked = False\<rparr>,
        32 \<mapsto> \<lparr>obj = ObjClosure 24 [], isMarked = False\<rparr>)"

definition compiling_vm :: VM where
  "compiling_vm =
     initVM\<lparr>heap := compiling_heap,
            objects := [16, 8, 32, 24],
            strings := Table 1 ((replicate 8 emptyEntry)
                          [2 := (Entry (Some 8) (NIL_VAL))]),
            frames := (frames initVM)
              (0 := \<lparr>closure = 32, cf_ip = \<lparr>blk = 24, off = 3\<rparr>, slots = 0\<rparr>),
            frameCount := 1,
            stack := (stack initVM)(0 := OBJ_VAL 32),
            stackTop := 1\<rparr>"

section \<open>JSON (dataformat.c)\<close>




subsection \<open>The parser\<close>



















subsection \<open>The writer\<close>






subsection \<open>Canonical texts\<close>













chapter \<open>Properties\<close>

section \<open>Falseness\<close>




lemma value_consts_distinct:
  "NIL_VAL \<noteq> FALSE_VAL" "NIL_VAL \<noteq> TRUE_VAL" "TRUE_VAL \<noteq> FALSE_VAL"
  "TRUE_VAL \<noteq> 0" "TRUE_VAL \<noteq> SIGN_BIT" "TRUE_VAL \<noteq> NIL_VAL"
  "\<not> IS_NUMBER NIL_VAL" "\<not> IS_NUMBER FALSE_VAL" "\<not> IS_NUMBER TRUE_VAL"
  "IS_NUMBER 0" "IS_NUMBER SIGN_BIT"
  by (simp_all add: NIL_VAL_def FALSE_VAL_def TRUE_VAL_def QNAN_def TAG_NIL_def TAG_FALSE_def
      TAG_TRUE_def SIGN_BIT_def IS_NUMBER_def)








section \<open>Permission checks\<close>

lemma globMatch_Nil_text: "globMatch ps [] = (skipStars ps = [])"
  by (cases ps) (simp_all add: globTail_def)

lemma skipStars_glob_matches: "skipStars ps = [] \<Longrightarrow> glob_matches ps []"
proof (induction ps)
  case Nil
  show ?case by (rule gm_end)
next
  case (Cons p ps)
  from Cons.prems have p: "p = CHR ''*''" and rest: "skipStars ps = []"
    by (auto split: if_splits)
  from gm_star [OF Cons.IH [OF rest], of "[]"] p show ?case by simp
qed

lemma globMatch_sound:
  shows "globMatch ps t \<Longrightarrow> glob_matches ps t"
    and "globStar ps t \<Longrightarrow> \<exists>run rest. t = run @ rest \<and> glob_matches ps rest"
proof (induction ps t and ps t rule: globMatch_globStar.induct)
  case (1 p ps c cs)
  note m = \<open>globMatch (p # ps) (c # cs)\<close>
  show ?case
  proof (cases "p = CHR ''*''")
    case star: True
    show ?thesis
    proof (cases "ps = []")
      case True
      from gm_star [OF gm_end, of "c # cs"] star True show ?thesis by simp
    next
      case False
      with m star have "globStar ps (c # cs)" by simp
      with 1(1) [OF star False] obtain run rest
        where "c # cs = run @ rest" "glob_matches ps rest" by blast
      with gm_star [of ps rest run] star show ?thesis by simp
    qed
  next
    case False
    with m have eq: "p = c" and r: "globMatch ps cs" by (auto split: if_splits)
    from 1(2) [OF False] eq r have "glob_matches ps cs" by simp
    with gm_byte [of c ps cs] False eq show ?thesis by simp
  qed
next
  case (2 t)
  then show ?case by (auto intro: gm_end simp: globTail_def)
next
  case (3 p ps)
  then show ?case
    by (auto intro: skipStars_glob_matches simp: globTail_def simp del: skipStars.simps)
next
  case (4 pattern c cs)
  note s = \<open>globStar pattern (c # cs)\<close>
  show ?case
  proof (cases "globMatch pattern (c # cs)")
    case True
    with 4(1) have "glob_matches pattern (c # cs)" by simp
    then have "c # cs = [] @ (c # cs) \<and> glob_matches pattern (c # cs)" by simp
    then show ?thesis by blast
  next
    case False
    with s have "globStar pattern cs" by simp
    with 4(2) [OF False] obtain run rest where "cs = run @ rest" "glob_matches pattern rest"
      by blast
    then have "c # cs = (c # run) @ rest \<and> glob_matches pattern rest" by simp
    then show ?thesis by blast
  qed
next
  case (5 pattern)
  then show ?case by simp
qed

lemma all_stars_match: "skipStars ps = [] \<Longrightarrow> ps \<noteq> [] \<Longrightarrow> globMatch ps t"
proof (induction ps)
  case Nil
  then show ?case by simp
next
  case (Cons p ps)
  from Cons.prems have p: "p = CHR ''*''" and rest: "skipStars ps = []"
    by (auto split: if_splits)
  show ?case
  proof (cases t)
    case Nil
    with p rest show ?thesis by (simp add: globTail_def)
  next
    case (Cons c cs)
    show ?thesis
    proof (cases "ps = []")
      case True
      with p Cons show ?thesis by simp
    next
      case False
      from Cons.IH [OF rest False] have "globMatch ps t" .
      with p Cons False show ?thesis by simp
    qed
  qed
qed

lemma globStar_run: "globMatch ps t \<Longrightarrow> t \<noteq> [] \<Longrightarrow> globStar ps (run @ t)"
proof (induction run)
  case Nil
  then show ?case by (cases t) simp_all
next
  case (Cons r rs)
  then show ?case by simp
qed

lemma globMatch_star_ext: "globMatch ps t \<Longrightarrow> globMatch (CHR ''*'' # ps) (run @ t)"
proof (cases "run @ t")
  case Nil
  assume "globMatch ps t"
  with Nil show ?thesis by (simp add: globMatch_Nil_text globTail_def)
next
  case (Cons c cs)
  assume m: "globMatch ps t"
  show ?thesis
  proof (cases "ps = []")
    case True
    with Cons show ?thesis by simp
  next
    case False
    have "globStar ps (run @ t)"
    proof (cases "t = []")
      case True
      with m have "skipStars ps = []" by (simp add: globMatch_Nil_text)
      from all_stars_match [OF this False] have "globMatch ps (c # cs)" .
      with Cons show ?thesis by simp
    next
      case False
      from globStar_run [OF m False] show ?thesis .
    qed
    with Cons False show ?thesis by simp
  qed
qed

lemma globMatch_complete: "glob_matches ps t \<Longrightarrow> globMatch ps t"
proof (induction rule: glob_matches.induct)
  case gm_end
  show ?case by (simp add: globTail_def)
next
  case (gm_star ps t run)
  then show ?case by (simp only: globMatch_star_ext)
next
  case (gm_byte c ps t)
  then show ?case by simp
qed

lemma globMatch_iff: "globMatch ps t \<longleftrightarrow> glob_matches ps t"
  using globMatch_sound(1) [of ps t] globMatch_complete [of ps t] by blast

lemma hasPermission_loop_iff:
  "hasPermission_loop ps ty tgt \<longleftrightarrow>
     (\<exists>p \<in> set ps. ptype p = ty \<and> glob_matches (target p) tgt)"
  by (induction ps) (auto simp: globMatch_iff)

text \<open>
  Claim C5. \<open>hasPermission set kind target\<close> is true if and only if the allow-all flag
  of the set is on, or some recorded entry has the queried kind and a pattern that
  matches the target, where \<open>*\<close> matches any (possibly empty) run of bytes and every
  other pattern byte matches only the same byte. In particular a set with no entries and
  the flag off refuses every query.
\<close>

theorem hasPermission_iff_glob:
  "(hasPermission s ty tgt \<longleftrightarrow>
      allowAll s \<or> (\<exists>p \<in> set (permissions s). ptype p = ty \<and> glob_matches (target p) tgt)) \<and>
   (permissions s = [] \<and> \<not> allowAll s \<longrightarrow> \<not> hasPermission s ty tgt)"
  by (auto simp: hasPermission_def hasPermission_loop_iff)

theorem hasPermission_iff_glob_witness:
  "hasPermission (addPermission initPermissions PERM_READ ''/tmp/*'') PERM_READ ''/tmp/a.txt'' \<and>
   glob_matches ''/tmp/*'' ''/tmp/a.txt'' \<and>
   \<not> hasPermission (addPermission initPermissions PERM_READ ''/tmp/*'') PERM_WRITE ''/tmp/a.txt'' \<and>
   permissions initPermissions = [] \<and> \<not> allowAll initPermissions \<and>
   \<not> hasPermission initPermissions PERM_EXEC ''ls''"
proof -
  let ?s = "addPermission initPermissions PERM_READ ''/tmp/*''"
  have a: "hasPermission ?s PERM_READ ''/tmp/a.txt''"
    by (simp add: hasPermission_def addPermission_def initPermissions_def)
  have g: "glob_matches ''/tmp/*'' ''/tmp/a.txt''"
    using a hasPermission_iff_glob [of ?s PERM_READ "''/tmp/a.txt''"]
    by (simp add: addPermission_def initPermissions_def)
  have b: "\<not> hasPermission ?s PERM_WRITE ''/tmp/a.txt''"
    using hasPermission_iff_glob [of ?s PERM_WRITE "''/tmp/a.txt''"]
    by (simp add: addPermission_def initPermissions_def)
  have c: "permissions initPermissions = [] \<and> \<not> allowAll initPermissions"
    by (simp add: initPermissions_def)
  have d: "\<not> hasPermission initPermissions PERM_EXEC ''ls''"
    using c hasPermission_iff_glob [of initPermissions PERM_EXEC "''ls''"] by blast
  from a g b c d show ?thesis by blast
qed

section \<open>Error handlers\<close>

lemma dispatch_error_fires:
  assumes "hasError vm" and "handlerCount vm > 0"
    and "eh_stackTop (handlers vm (handlerCount vm - 1)) < STACK_MAX"
  shows "\<exists>vm'. dispatch_error vm = Next vm'
     \<and> frameCount vm' = eh_frameCount (handlers vm (handlerCount vm - 1))
     \<and> stackTop vm' = eh_stackTop (handlers vm (handlerCount vm - 1)) + 1
     \<and> stack vm' (eh_stackTop (handlers vm (handlerCount vm - 1))) = currentError vm
     \<and> ip vm' = handlerIP (handlers vm (handlerCount vm - 1))
     \<and> \<not> hasError vm' \<and> currentError vm' = NIL_VAL
     \<and> handlerCount vm' = handlerCount vm \<and> handlers vm' = handlers vm"
  using assms
  by (simp add: dispatch_error_def LOAD_FRAME_def push_def Let_def)

lemma op_PUSH_HANDLER_records:
  assumes "op_PUSH_HANDLER vm0 = Next vm1"
  shows "handlerCount vm1 = handlerCount vm0 + 1
     \<and> eh_frameCount (handlers vm1 (handlerCount vm0)) = frameCount vm0
     \<and> eh_stackTop (handlers vm1 (handlerCount vm0)) = stackTop vm0
     \<and> handlerIP (handlers vm1 (handlerCount vm0)) =
         (ip vm0)\<lparr>off := off (ip vm0) + 2 + fst (READ_SHORT vm0)\<rparr>"
  using assms
  by (auto simp: op_PUSH_HANDLER_def READ_SHORT_def Let_def split: if_splits)

lemma op_PUSH_HANDLER_Next:
  "handlerCount vm < HANDLER_MAX \<Longrightarrow> op_PUSH_HANDLER vm = Next (next_vm (op_PUSH_HANDLER vm))"
  by (simp add: op_PUSH_HANDLER_def READ_SHORT_def next_vm_def Let_def)

text \<open>
  \<open>dispatch_error\<close> is the code of \<^verbatim>\<open>CASE(CALL)\<close> that follows the call. Let a
  handler be pushed by \<^verbatim>\<open>OP_PUSH_HANDLER\<close> in a state \<open>vm0\<close> whose stack top is
  below \<^verbatim>\<open>STACK_MAX\<close>, and let an error be raised in a later state \<open>vm\<close> in which
  that handler is the topmost one. Then firing it restores the frame count to that of
  \<open>vm0\<close>, restores the stack top to that of \<open>vm0\<close> and pushes the error value there,
  sets the instruction pointer to the target computed at the push (the pointer after the
  operand plus the offset), and clears \<open>hasError\<close>.
\<close>

lemma handler_fire_below_STACK_MAX:
  assumes pushed: "op_PUSH_HANDLER vm0 = Next vm1"
    and room: "stackTop vm0 < STACK_MAX"
    and raised: "hasError vm"
    and top: "handlerCount vm = handlerCount vm1"
    and kept: "handlers vm (handlerCount vm0) = handlers vm1 (handlerCount vm0)"
  shows "\<exists>vm'. dispatch_error vm = Next vm'
     \<and> frameCount vm' = frameCount vm0
     \<and> stackTop vm' = stackTop vm0 + 1
     \<and> stack vm' (stackTop vm0) = currentError vm
     \<and> ip vm' = (ip vm0)\<lparr>off := off (ip vm0) + 2 + fst (READ_SHORT vm0)\<rparr>
     \<and> \<not> hasError vm'"
proof -
  note r = op_PUSH_HANDLER_records [OF pushed]
  from r top have cnt: "handlerCount vm > 0" and idx: "handlerCount vm - 1 = handlerCount vm0"
    by simp_all
  from r kept room idx
  have st: "eh_stackTop (handlers vm (handlerCount vm - 1)) < STACK_MAX" by simp
  from dispatch_error_fires [OF raised cnt st] obtain vm' where
    "dispatch_error vm = Next vm'"
    "frameCount vm' = eh_frameCount (handlers vm (handlerCount vm - 1))"
    "stackTop vm' = eh_stackTop (handlers vm (handlerCount vm - 1)) + 1"
    "stack vm' (eh_stackTop (handlers vm (handlerCount vm - 1))) = currentError vm"
    "ip vm' = handlerIP (handlers vm (handlerCount vm - 1))"
    "\<not> hasError vm'"
    by blast
  with r kept idx show ?thesis by simp
qed

lemma dispatch_error_full_stack:
  assumes "hasError vm" and "handlerCount vm > 0"
    and "eh_stackTop (handlers vm (handlerCount vm - 1)) = STACK_MAX"
  shows "\<exists>vm'. dispatch_error vm = Next vm'
     \<and> frameCount vm' = 0 \<and> stackTop vm' = 0
     \<and> stack vm' = stack vm
     \<and> stderr vm' = stderr vm @ [''Stack overflow.'']
     \<and> ip vm' = handlerIP (handlers vm (handlerCount vm - 1))
     \<and> \<not> hasError vm'"
  using assms
  by (simp add: dispatch_error_def LOAD_FRAME_def push_def Let_def)

text \<open>
  Claim C1 does not hold of the code. The error value is pushed with the checked
  \<^verbatim>\<open>push\<close>. Let a handler be pushed by \<^verbatim>\<open>OP_PUSH_HANDLER\<close> in a state \<open>vm0\<close>
  whose stack is full (the stack top is \<^verbatim>\<open>STACK_MAX\<close>), with at least one frame, and
  let an error be raised in a later state \<open>vm\<close> in which that handler is the topmost one.
  Then firing it goes on at the handler's target with \<open>hasError\<close> cleared, but the push
  of the error value takes the overflow branch of \<^verbatim>\<open>push\<close>: the error value is stored
  nowhere on the stack, and the frame count and the stack top are 0, not the values
  recorded at the push of the handler.
\<close>

theorem handler_fire_full_stack_resets:
  assumes pushed: "op_PUSH_HANDLER vm0 = Next vm1"
    and full: "stackTop vm0 = STACK_MAX"
    and framed: "frameCount vm0 > 0"
    and raised: "hasError vm"
    and top: "handlerCount vm = handlerCount vm1"
    and kept: "handlers vm (handlerCount vm0) = handlers vm1 (handlerCount vm0)"
  shows "\<exists>vm'. dispatch_error vm = Next vm'
     \<and> frameCount vm' = 0 \<and> frameCount vm' \<noteq> frameCount vm0
     \<and> stackTop vm' = 0 \<and> stackTop vm' \<noteq> stackTop vm0
     \<and> stack vm' = stack vm
     \<and> stderr vm' = stderr vm @ [''Stack overflow.'']
     \<and> ip vm' = (ip vm0)\<lparr>off := off (ip vm0) + 2 + fst (READ_SHORT vm0)\<rparr>
     \<and> \<not> hasError vm'"
proof -
  note r = op_PUSH_HANDLER_records [OF pushed]
  from r top have cnt: "handlerCount vm > 0" and idx: "handlerCount vm - 1 = handlerCount vm0"
    by simp_all
  from r kept full idx
  have st: "eh_stackTop (handlers vm (handlerCount vm - 1)) = STACK_MAX" by simp
  from dispatch_error_full_stack [OF raised cnt st] obtain vm' where
    "dispatch_error vm = Next vm'"
    "frameCount vm' = 0" "stackTop vm' = 0" "stack vm' = stack vm"
    "stderr vm' = stderr vm @ [''Stack overflow.'']"
    "ip vm' = handlerIP (handlers vm (handlerCount vm - 1))"
    "\<not> hasError vm'"
    by blast
  moreover from full have "stackTop vm0 \<noteq> 0"
    by (simp add: STACK_MAX_def FRAMES_MAX_def UINT8_COUNT_def)
  ultimately show ?thesis using r kept idx framed by simp
qed

text \<open>
  An instance: the first handler of the script with two handlers is pushed with one frame
  and a full stack; the error is raised one frame deeper. The dispatch leaves neither
  the frame count of the raise (2) nor the recorded one (1), but 0.
\<close>

theorem handler_fire_full_stack_resets_witness:
  "op_PUSH_HANDLER (snd (READ_BYTE (nested_vm\<lparr>stackTop := STACK_MAX\<rparr>)))
     = Next (next_vm (op_PUSH_HANDLER (snd (READ_BYTE (nested_vm\<lparr>stackTop := STACK_MAX\<rparr>)))))
   \<and> frameCount (snd (READ_BYTE (nested_vm\<lparr>stackTop := STACK_MAX\<rparr>))) = 1
   \<and> stackTop (snd (READ_BYTE (nested_vm\<lparr>stackTop := STACK_MAX\<rparr>))) = 65536
   \<and> (\<exists>vm'. dispatch_error
          ((next_vm (op_PUSH_HANDLER (snd (READ_BYTE (nested_vm\<lparr>stackTop := STACK_MAX\<rparr>)))))
             \<lparr>frameCount := 2, hasError := True, currentError := OBJ_VAL 40\<rparr>) = Next vm'
        \<and> frameCount vm' = 0 \<and> stackTop vm' = 0
        \<and> stack vm' = stack nested_vm
        \<and> stderr vm' = [''Stack overflow.'']
        \<and> ip vm' = \<lparr>blk = 24, off = 25\<rparr> \<and> \<not> hasError vm')"
proof -
  let ?a = "snd (READ_BYTE (nested_vm\<lparr>stackTop := STACK_MAX\<rparr>))"
  let ?b = "next_vm (op_PUSH_HANDLER ?a)"
  let ?c = "?b\<lparr>frameCount := 2, hasError := True, currentError := OBJ_VAL 40\<rparr>"
  have hc: "handlerCount ?a = 0" and fc: "frameCount ?a = 1"
    and st: "stackTop ?a = STACK_MAX" and ip0: "ip ?a = \<lparr>blk = 24, off = 1\<rparr>"
    by (simp_all add: READ_BYTE_def nested_vm_def initVM_def)
  have sh: "fst (READ_SHORT ?a) = 22"
    by (simp add: READ_SHORT_def READ_BYTE_def nested_vm_def initVM_def code_at_def
        nested_heap_def nested_chunk_def Let_def)
  have p: "op_PUSH_HANDLER ?a = Next ?b"
    by (rule op_PUSH_HANDLER_Next) (simp add: hc HANDLER_MAX_def)
  have bs: "stack ?c = stack nested_vm" and be: "stderr ?c = []"
    by (simp_all add: op_PUSH_HANDLER_def READ_SHORT_def READ_BYTE_def next_vm_def
        nested_vm_def initVM_def HANDLER_MAX_def Let_def)
  have framed: "frameCount ?a > 0" by (simp add: fc)
  from handler_fire_full_stack_resets [OF p st framed, of ?c]
  obtain vm' where d: "dispatch_error ?c = Next vm'"
     and r: "frameCount vm' = 0" "stackTop vm' = 0" "stack vm' = stack ?c"
       "stderr vm' = stderr ?c @ [''Stack overflow.'']"
       "ip vm' = (ip ?a)\<lparr>off := off (ip ?a) + 2 + fst (READ_SHORT ?a)\<rparr>"
       "\<not> hasError vm'"
    by auto
  from r have "frameCount vm' = 0 \<and> stackTop vm' = 0 \<and> stack vm' = stack nested_vm
        \<and> stderr vm' = [''Stack overflow.'']
        \<and> ip vm' = \<lparr>blk = 24, off = 25\<rparr> \<and> \<not> hasError vm'"
    by (simp add: bs be ip0 sh)
  with d have "\<exists>vm'. dispatch_error ?c = Next vm'
        \<and> frameCount vm' = 0 \<and> stackTop vm' = 0 \<and> stack vm' = stack nested_vm
        \<and> stderr vm' = [''Stack overflow.'']
        \<and> ip vm' = \<lparr>blk = 24, off = 25\<rparr> \<and> \<not> hasError vm'"
    by blast
  moreover have "stackTop ?a = 65536"
    by (simp add: READ_BYTE_def nested_vm_def initVM_def STACK_MAX_def FRAMES_MAX_def
        UINT8_COUNT_def)
  ultimately show ?thesis using p fc by blast
qed

lemma steps_numeral:
  "steps natives fdiv (numeral k) vm =
     (case step natives fdiv vm of
        Some (Next vm') \<Rightarrow> steps natives fdiv (pred_numeral k) vm'
      | r \<Rightarrow> r)"
  by (simp add: numeral_eq_Suc)

lemma nested_code_at:
  "code_at nested_heap \<lparr>blk = 24, off = n\<rparr> =
     (if n < length (code nested_chunk) then code nested_chunk ! n else 0)"
  by (simp add: code_at_def nested_heap_def)

lemma nested_key_hash: "key_hash nested_heap 8 = 508790637"
  by (simp add: key_hash_def nested_heap_def hashString_def)

lemma nested_globals_eq:
  "nested_globals = Table 1 ([emptyEntry, emptyEntry, emptyEntry, emptyEntry, emptyEntry,
      (Entry (Some 8) (OBJ_VAL 16)), emptyEntry, emptyEntry])"
  by code_simp

lemma AS_OBJ_small:
  "AS_OBJ (OBJ_VAL 8) = 8" "AS_OBJ (OBJ_VAL 16) = 16" "IS_OBJ (OBJ_VAL 16)"
  by (simp_all add: AS_OBJ_def OBJ_VAL_def SIGN_BIT_def QNAN_def IS_OBJ_def)

lemma nested_heap_16: "nested_heap 16 = Some \<lparr>obj = ObjNative 0 ''fail'' (- 1), isMarked = False\<rparr>"
  by (simp add: nested_heap_def)

lemma nested_frame_constants:
  "closure_function nested_heap 32 = 24"
  "function_constants nested_heap 24 = constants nested_chunk"
  by (simp_all add: closure_function_def function_constants_def nested_heap_def)

lemmas nested_eval = nested_frame_constants
  steps_numeral step_def READ_BYTE_def nested_vm_def initVM_def nested_code_at nested_chunk_def
  opcode_defs op_PUSH_HANDLER_def READ_SHORT_def HANDLER_MAX_def Let_def op_GET_GLOBAL_def
  READ_STRING_def READ_CONSTANT_def AS_OBJ_small ic_slot_def nested_key_hash GLOBAL_IC_SIZE_def
  nested_globals_eq tableGetEntry_def findEntry_def emptyEntry_def IS_NIL_def push_raw_def
  op_CALL_def STORE_FRAME_def peek_def callValue_def nested_heap_16 failNative_def push_def
  STACK_MAX_def FRAMES_MAX_def UINT8_COUNT_def LOAD_FRAME_def dispatch_error_def

text \<open>
  Claim C2, evaluated on the script with two nested handlers. Four instructions from the
  start (two \<^verbatim>\<open>OP_PUSH_HANDLER\<close>, \<^verbatim>\<open>OP_GET_GLOBAL\<close>, \<^verbatim>\<open>OP_CALL\<close>) the call
  of \<open>fail\<close> in the protected region raises, and the inner handler fires: the machine is
  at offset 15, the body of the inner handler, and both handlers are still registered.
  Two instructions later the body of the inner handler has called \<open>fail\<close> itself; the
  error is dispatched to offset 15 again, the inner handler, and not to offset 25, the
  outer one.
\<close>

theorem handler_body_error_returns_to_same_handler:
  "(case steps failNative (\<lambda>a b. a) 4 nested_vm of
      Some (Next vm) \<Rightarrow> ip vm = \<lparr>blk = 24, off = 15\<rparr> \<and> handlerCount vm = 2
        \<and> handlerIP (handlers vm 0) = \<lparr>blk = 24, off = 25\<rparr>
        \<and> handlerIP (handlers vm 1) = \<lparr>blk = 24, off = 15\<rparr>
        \<and> stackTop vm = 2 \<and> stack vm 1 = OBJ_VAL 40 \<and> \<not> hasError vm
    | _ \<Rightarrow> False)
   \<and> (case steps failNative (\<lambda>a b. a) 6 nested_vm of
      Some (Next vm) \<Rightarrow> ip vm = \<lparr>blk = 24, off = 15\<rparr> \<and> handlerCount vm = 2
        \<and> ip vm \<noteq> handlerIP (handlers vm 0)
    | _ \<Rightarrow> False)"
proof (intro conjI)
  show "(case steps failNative (\<lambda>a b. a) 4 nested_vm of
      Some (Next vm) \<Rightarrow> ip vm = \<lparr>blk = 24, off = 15\<rparr> \<and> handlerCount vm = 2
        \<and> handlerIP (handlers vm 0) = \<lparr>blk = 24, off = 25\<rparr>
        \<and> handlerIP (handlers vm 1) = \<lparr>blk = 24, off = 15\<rparr>
        \<and> stackTop vm = 2 \<and> stack vm 1 = OBJ_VAL 40 \<and> \<not> hasError vm
    | _ \<Rightarrow> False)"
    by (simp add: nested_eval)
  show "(case steps failNative (\<lambda>a b. a) 6 nested_vm of
      Some (Next vm) \<Rightarrow> ip vm = \<lparr>blk = 24, off = 15\<rparr> \<and> handlerCount vm = 2
        \<and> ip vm \<noteq> handlerIP (handlers vm 0)
    | _ \<Rightarrow> False)"
    by (simp add: nested_eval)
qed

section \<open>Division by zero\<close>

text \<open>
  Claim C3, as stated, fails: with the divisor \<open>0.0\<close> on top of the stack and a handler
  registered, \<^verbatim>\<open>OP_DIVIDE\<close> makes \<^verbatim>\<open>run\<close> return
  \<^verbatim>\<open>INTERPRET_RUNTIME_ERROR\<close>; \<open>hasError\<close> stays false and no error map is stored.
\<close>

theorem op_DIVIDE_by_zero_counterexample:
  "handlerCount div_vm = 1
   \<and> (case op_DIVIDE (\<lambda>a b. a) div_vm of
         Return r vm' \<Rightarrow> r = INTERPRET_RUNTIME_ERROR \<and> \<not> hasError vm'
           \<and> currentError vm' = NIL_VAL \<and> stderr vm' = [''Division by zero.'']
       | _ \<Rightarrow> False)"
  by (simp add: op_DIVIDE_def div_vm_def initVM_def IS_NUMBER_def QNAN_def number_eq_zero_def
      runtimeError_def STORE_FRAME_def NIL_VAL_def)

text \<open>
  Claim C3, amended. Whenever \<^verbatim>\<open>OP_DIVIDE\<close> finds two numbers of which the divisor
  is zero, \<^verbatim>\<open>run\<close> returns \<^verbatim>\<open>INTERPRET_RUNTIME_ERROR\<close> after
  \<^verbatim>\<open>runtimeError\<close> has printed the message ``Division by zero.'' and emptied the
  stack and the frame stack. The pending-error flag, the error value and the handler stack
  are as they were: no handler receives the error, registered or not.
\<close>

theorem op_DIVIDE_by_zero_terminates:
  assumes "IS_NUMBER (stack vm (stackTop vm - 1))"
    and "IS_NUMBER (stack vm (stackTop vm - 2))"
    and "number_eq_zero (stack vm (stackTop vm - 1))"
  shows "\<exists>vm'. op_DIVIDE fdiv vm = Return INTERPRET_RUNTIME_ERROR vm'
     \<and> stderr vm' = stderr vm @ [''Division by zero.'']
     \<and> stackTop vm' = 0 \<and> frameCount vm' = 0
     \<and> hasError vm' = hasError vm \<and> currentError vm' = currentError vm
     \<and> handlerCount vm' = handlerCount vm \<and> handlers vm' = handlers vm"
  using assms by (simp add: op_DIVIDE_def runtimeError_def STORE_FRAME_def)

theorem op_DIVIDE_by_zero_terminates_witness:
  "IS_NUMBER (stack div_vm (stackTop div_vm - 1))
   \<and> IS_NUMBER (stack div_vm (stackTop div_vm - 2))
   \<and> number_eq_zero (stack div_vm (stackTop div_vm - 1))
   \<and> (\<exists>vm'. op_DIVIDE (\<lambda>a b. a) div_vm = Return INTERPRET_RUNTIME_ERROR vm'
        \<and> stderr vm' = [''Division by zero.''] \<and> \<not> hasError vm' \<and> handlerCount vm' = 1)"
proof -
  have a: "IS_NUMBER (stack div_vm (stackTop div_vm - 1))"
    and b: "IS_NUMBER (stack div_vm (stackTop div_vm - 2))"
    and c: "number_eq_zero (stack div_vm (stackTop div_vm - 1))"
    by (simp_all add: div_vm_def initVM_def IS_NUMBER_def QNAN_def number_eq_zero_def)
  from op_DIVIDE_by_zero_terminates [OF a b c, of "\<lambda>a b. a"]
  obtain vm' where d: "op_DIVIDE (\<lambda>a b. a) div_vm = Return INTERPRET_RUNTIME_ERROR vm'"
    and r: "stderr vm' = stderr div_vm @ [''Division by zero.'']"
      "hasError vm' = hasError div_vm" "handlerCount vm' = handlerCount div_vm"
    by auto
  from r have "stderr vm' = [''Division by zero.''] \<and> \<not> hasError vm' \<and> handlerCount vm' = 1"
    by (simp add: div_vm_def initVM_def)
  with d have "\<exists>vm'. op_DIVIDE (\<lambda>a b. a) div_vm = Return INTERPRET_RUNTIME_ERROR vm'
        \<and> stderr vm' = [''Division by zero.''] \<and> \<not> hasError vm' \<and> handlerCount vm' = 1"
    by blast
  with a b c show ?thesis by blast
qed
section \<open>Globals and the inline cache\<close>

lemma findEntry_loop_numeral:
  "findEntry_loop nil es k i t (numeral n) =
     (case e_key (es ! i) of
        None \<Rightarrow>
          if e_value (es ! i) = nil
          then Some (case t of Some t \<Rightarrow> t | None \<Rightarrow> i)
          else findEntry_loop nil es k ((i + 1) mod length es)
                 (case t of Some t \<Rightarrow> Some t | None \<Rightarrow> Some i) (pred_numeral n)
      | Some k' \<Rightarrow>
          if k' = k then Some i
          else findEntry_loop nil es k ((i + 1) mod length es) t (pred_numeral n))"
  by (simp add: numeral_eq_Suc)

lemma ic_code_at:
  "code_at ic_heap \<lparr>blk = 24, off = n\<rparr> =
     (if n < length (code ic_chunk) then code ic_chunk ! n else 0)"
  by (simp add: code_at_def ic_heap_def)

lemma ic_key_hash:
  "key_hash ic_heap 8 = 4245442695" 
  by (simp_all add: key_hash_def ic_heap_def hashString_def)


lemma ic_key_hash_more:
  "key_hash ic_heap 16 = 3893112696" "key_hash ic_heap 40 = 2197504908"
  by (simp_all add: key_hash_def ic_heap_def hashString_def)

lemma AS_OBJ_8: "AS_OBJ (OBJ_VAL 8) = 8"
  by (simp add: AS_OBJ_def OBJ_VAL_def SIGN_BIT_def QNAN_def)

lemma ic_frame_constants:
  "closure_function (ic_heap(48 \<mapsto> x)) 32 = 24"
  "function_constants (ic_heap(48 \<mapsto> x)) 24 = constants ic_chunk"
  by (simp_all add: closure_function_def function_constants_def ic_heap_def)

lemma key_hash_upd: "key_hash (ic_heap(48 \<mapsto> x)) k = (if k = 48 then key_hash (\<lambda>p. if p = 48 then Some x else None) 48 else key_hash ic_heap k)"
  by (simp add: key_hash_def)

lemmas ic_eval = steps_numeral step_def READ_BYTE_def ic_vm_def initVM_def ic_code_at ic_chunk_def
  opcode_defs READ_SHORT_def Let_def op_GET_GLOBAL_def op_SET_GLOBAL_def op_CONSTANT_def op_NIL_def
  op_POP_def READ_STRING_def READ_CONSTANT_def AS_OBJ_8 ic_slot_def ic_key_hash ic_key_hash_more
  GLOBAL_IC_SIZE_def tableGetEntry_def tableGet_def tableSet_def tableDelete_def adjustCapacity_def
  GROW_CAPACITY_def initTable_def findEntry_def findEntry_loop_numeral emptyEntry_def
  tombstoneEntry_def IS_NIL_def push_raw_def STORE_FRAME_def runtimeError_def

lemma ic_module_run:
  "steps failNative (\<lambda>a b. a) 2 ic_vm =
     Some (Next (ic_vm\<lparr>ip := \<lparr>blk = 24, off = 4\<rparr>,
        stack := (stack ic_vm)(1 := 0x3FF0000000000000),
        stackTop := 2,
        globals := Table 1 ((replicate 8 emptyEntry)[7 := (Entry (Some 8) (0x3FF0000000000000))]),
        globalIC := (globalIC ic_vm)(135 := \<lparr>ic_key = 8, ic_entry = 7, tableCapacity = 8\<rparr>)\<rparr>))"
  by (simp add: ic_eval)


lemma upt_0_8: "[0..<8] = [0, 1, 2, 3, 4, 5, 6, 7]"
  by code_simp

lemma ic_import_diff: "import_diff_loop (key_hash ic_heap) initTable [0..<8]
     (Table (Suc 0) ((replicate 8 emptyEntry)[7 := (Entry (Some 8) (0x3FF0000000000000))]), initTable)
    = Some (Table 1 ((replicate 8 emptyEntry)[7 := tombstoneEntry]),
            Table 1 ((replicate 8 emptyEntry)[7 := (Entry (Some 8) (0x3FF0000000000000))]))"
  by (simp add: upt_0_8 import_diff_step_def ic_key_hash tableGet_def tableGetEntry_def tableSet_def tableDelete_def
     adjustCapacity_def GROW_CAPACITY_def initTable_def findEntry_def findEntry_loop_numeral emptyEntry_def
     tombstoneEntry_def IS_NIL_def)

lemma ic_after_import_eq:
  "ic_after_import ic_vm2 at =
     ic_vm2\<lparr>ip := \<lparr>blk = 24, off = at\<rparr>,
        stack := (stack ic_vm2)(1 := NIL_VAL, 2 := OBJ_VAL 48),
        heap := ic_heap(48 \<mapsto> \<lparr>obj = ObjMap (Table 1 ((replicate 8 emptyEntry)
                  [7 := (Entry (Some 8) (0x3FF0000000000000))])), isMarked = False\<rparr>),
        objects := [48],
        globals := Table 2 ((replicate 8 emptyEntry)
                  [7 := tombstoneEntry, 0 := (Entry (Some 16) (OBJ_VAL 48))]),
        modules := Table 1 ((replicate 8 emptyEntry)
                  [4 := (Entry (Some 40) (OBJ_VAL 48))])\<rparr>"
  apply (simp add: ic_after_import_def import_finish_def ic_vm2_def ic_vm_def initVM_def push_def pop_def
      STACK_MAX_def FRAMES_MAX_def UINT8_COUNT_def ic_import_diff Let_def
      del: import_diff_loop.simps)
  apply (simp add: ic_key_hash_more tableSet_def adjustCapacity_def GROW_CAPACITY_def initTable_def findEntry_def
      findEntry_loop_numeral emptyEntry_def tombstoneEntry_def IS_NIL_def BOOL_VAL_def LOAD_FRAME_def ic_frame_constants 
      value_consts_distinct)
  done

lemma ic_module_run2: "steps failNative (\<lambda>a b. a) 2 ic_vm = Some (Next ic_vm2)"
  unfolding ic_vm2_def by (rule ic_module_run)

lemma ic_key_hash_alloc:
  "key_hash (ic_heap(48 \<mapsto> ho)) 8 = 4245442695"
  by (simp add: key_hash_def ic_heap_def hashString_def)

lemma ic_code_at_alloc:
  "code_at (ic_heap(48 \<mapsto> ho)) \<lparr>blk = 24, off = n\<rparr> =
     (if n < length (code ic_chunk) then code ic_chunk ! n else 0)"
  by (simp add: code_at_def ic_heap_def)

text \<open>
  Claim C9, evaluated. A module assigns \<open>x = 1\<close> (two instructions from the start:
  \<^verbatim>\<open>OP_SET_GLOBAL\<close> inserts \<open>x\<close> and fills the inline-cache slot of the name), and
  the import that ran it ends: \<open>x\<close> moves into the module map and is deleted from the
  globals, where its entry is now a tombstone. The capacity of the table has not changed,
  so the cache slot still passes its test. A later \<^verbatim>\<open>OP_GET_GLOBAL x\<close> does not end
  in the runtime error for an undefined variable: it pushes the value of the tombstone,
  \<^verbatim>\<open>true\<close>, and the machine goes on. A later \<^verbatim>\<open>OP_SET_GLOBAL x\<close> raises no
  error either, but writes into the dead entry: \<open>x\<close> is still not a key of the globals.
\<close>

theorem stale_inline_cache_after_import:
  "(case steps failNative (\<lambda>a b. a) 2 ic_vm of
      Some (Next vm) \<Rightarrow>
        tableGet (key_hash (heap vm)) NIL_VAL (globals vm) 8 = Some (Some 0x3FF0000000000000)
        \<and> tableGet (key_hash (heap vm)) NIL_VAL (globals (ic_after_import vm 5)) 8 = Some None
        \<and> (case step failNative (\<lambda>a b. a) (ic_after_import vm 5) of
             Some (Next vm') \<Rightarrow> stackTop vm' = 3 \<and> stack vm' 2 = TRUE_VAL \<and> stderr vm' = []
           | _ \<Rightarrow> False)
        \<and> (case steps failNative (\<lambda>a b. a) 2 (ic_after_import vm 8) of
             Some (Next vm') \<Rightarrow> tableGet (key_hash (heap vm')) NIL_VAL (globals vm') 8 = Some None
           | _ \<Rightarrow> False)
    | _ \<Rightarrow> False)"
proof -
  have a: "tableGet (key_hash (heap ic_vm2)) NIL_VAL (globals ic_vm2) 8 = Some (Some 0x3FF0000000000000)"
    by (simp add: ic_vm2_def ic_vm_def initVM_def ic_key_hash tableGet_def tableGetEntry_def
        findEntry_def findEntry_loop_numeral emptyEntry_def IS_NIL_def)
  have b: "tableGet (key_hash (heap ic_vm2)) NIL_VAL (globals (ic_after_import ic_vm2 5)) 8 = Some None"
    by (simp add: ic_after_import_eq)
       (simp add: ic_vm2_def ic_vm_def initVM_def ic_key_hash tableGet_def tableGetEntry_def
        findEntry_def findEntry_loop_numeral emptyEntry_def tombstoneEntry_def IS_NIL_def
        BOOL_VAL_def value_consts_distinct)
  have c: "(case step failNative (\<lambda>a b. a) (ic_after_import ic_vm2 5) of
             Some (Next vm') \<Rightarrow> stackTop vm' = 3 \<and> stack vm' 2 = TRUE_VAL \<and> stderr vm' = []
           | _ \<Rightarrow> False)"
    by (simp add: ic_after_import_eq)
       (simp add: ic_vm2_def ic_vm_def initVM_def step_def READ_BYTE_def ic_code_at_alloc ic_chunk_def
        opcode_defs op_GET_GLOBAL_def READ_STRING_def READ_CONSTANT_def AS_OBJ_8 ic_slot_def
        ic_key_hash_alloc GLOBAL_IC_SIZE_def push_raw_def tombstoneEntry_def BOOL_VAL_def Let_def)
  have d: "(case steps failNative (\<lambda>a b. a) 2 (ic_after_import ic_vm2 8) of
             Some (Next vm') \<Rightarrow> tableGet (key_hash (heap vm')) NIL_VAL (globals vm') 8 = Some None
           | _ \<Rightarrow> False)"
    by (simp add: ic_after_import_eq)
       (simp add: ic_vm2_def ic_vm_def initVM_def steps_numeral step_def READ_BYTE_def ic_code_at_alloc
        ic_chunk_def opcode_defs op_NIL_def op_SET_GLOBAL_def READ_STRING_def READ_CONSTANT_def
        AS_OBJ_8 ic_slot_def ic_key_hash_alloc GLOBAL_IC_SIZE_def push_raw_def tombstoneEntry_def
        BOOL_VAL_def Let_def tableGet_def tableGetEntry_def findEntry_def findEntry_loop_numeral
        emptyEntry_def IS_NIL_def)
  from a b c d show ?thesis
    by (simp add: ic_module_run2)
qed


section \<open>Garbage collection\<close>

lemma AS_OBJ_32: "AS_OBJ (OBJ_VAL 32) = 32" "IS_OBJ (OBJ_VAL 32)"
  by (simp_all add: AS_OBJ_def OBJ_VAL_def SIGN_BIT_def QNAN_def IS_OBJ_def)

lemma compiling_markRoots:
  "markRoots compiling_vm =
     compiling_vm\<lparr>heap := compiling_heap(32 \<mapsto> \<lparr>obj = ObjClosure 24 [], isMarked = True\<rparr>),
                  grayStack := [32]\<rparr>"
  by (simp add: markRoots_def compiling_vm_def initVM_def markValue_def markObject_def AS_OBJ_32
      markTable_def initTable_def compiling_heap_def Let_def)

lemma traceReferences_numeral:
  "traceReferences (numeral n) vm =
     (if grayStack vm = [] then Some vm
      else traceReferences (pred_numeral n)
             (blackenObject (vm\<lparr>grayStack := butlast (grayStack vm)\<rparr>) (last (grayStack vm))))"
  by (simp add: numeral_eq_Suc)

text \<open>
  Claim C4, evaluated. A collection runs while a module is being compiled and
  \<^verbatim>\<open>makeConstant\<close> has installed a string in the constant pool of the function under
  compilation. \<^verbatim>\<open>markRoots\<close> reaches the running script only: after the collection
  the function being compiled (address 16) and the string in its pool (address 8) are
  freed, and the string is gone from the intern table; the running closure and its
  function survive.
\<close>

theorem collection_frees_compiling_function:
  "(case collectGarbage 4 compiling_vm of
      Some vm \<Rightarrow> heap vm 16 = None \<and> heap vm 8 = None
        \<and> heap vm 32 \<noteq> None \<and> heap vm 24 \<noteq> None \<and> objects vm = [32, 24]
        \<and> tableGet (key_hash compiling_heap) NIL_VAL (strings vm) 8 = Some None
    | None \<Rightarrow> False)"
  unfolding collectGarbage_def compiling_markRoots
  by (simp add: traceReferences_numeral findEntry_loop_numeral blackenObject_def compiling_vm_def initVM_def compiling_heap_def
      markObject_def markArray_def sweep_def tableRemoveWhite_def emptyEntry_def tombstoneEntry_def
      tableGet_def tableGetEntry_def findEntry_def key_hash_def hashString_def IS_NIL_def BOOL_VAL_def
      value_consts_distinct Let_def)


section \<open>JSON round trip\<close>















































end
